theory Spec2Isabelle
  imports Main "HOL-Library.Word"
begin

unbundle bit_operations_syntax

section \<open>Machine types, exceptions and constants\<close>

type_synonym u8 = "8 word"
type_synonym u16 = "16 word"
type_synonym u32 = "32 word"
type_synonym u64 = "64 word"

text \<open>
  Addresses handed to the library (\<open>void* p\<close> of a decision) are natural numbers;
  pointer arithmetic on them does not wrap.
\<close>

type_synonym addr = nat

text \<open>
  \<open>report_error\<close> (src/IPFIXContentHandler.cpp, 226-245) formats a message and throws
  \<open>IPFIX::FormatError\<close>; a failed \<open>assert\<close> aborts the program; a call through a
  null pointer has no defined behaviour and is where the model of a function stops.
  These are the ways a call fails other than by returning an error. The text of a
  message is kept where it is a literal of the source; formatted numbers and pointers
  are left out of it.
\<close>

datatype exn = FormatError string | AssertionFailed | NullDereference

fun is_format_error :: "exn + 'a \<Rightarrow> bool" where
  "is_format_error (Inl (FormatError m)) = True"
| "is_format_error (Inl AssertionFailed) = False"
| "is_format_error (Inl NullDereference) = False"
| "is_format_error (Inr v) = False"

text \<open>
  Modelled from the spec: Constants.h is not among the sources. The values are the
  ones of section 6 of the specification (version 10, a 16-octet message header, a
  4-octet set header, set ids 2 and 3, the length 0xFFFF for a variable-length field)
  and of \<open>climits\<close>.
\<close>

definition UCHAR_MAX :: u16 where "UCHAR_MAX = 255"
definition USHRT_MAX :: nat where "USHRT_MAX = 65535"
definition kVarlen :: u16 where "kVarlen = 0xFFFF"
definition kIpfixVarlen :: u16 where "kIpfixVarlen = 0xFFFF"
definition kIpfixVersion :: u16 where "kIpfixVersion = 10"
definition kIpfixMessageHeaderLen :: nat where "kIpfixMessageHeaderLen = 16"
definition kIpfixMinMessageLen :: u16 where "kIpfixMinMessageLen = 16"
definition kIpfixSetHeaderLen :: nat where "kIpfixSetHeaderLen = 4"
definition kIpfixTemplateSetID :: u16 where "kIpfixTemplateSetID = 2"
definition kIpfixOptionTemplateSetID :: u16 where "kIpfixOptionTemplateSetID = 3"

section \<open>BasicOctetArray (src/lib/BasicOctetArray.cpp)\<close>

text \<open>
  The object holds a heap array \<open>buf\<close> of \<open>capacity\<close> octets, of which the first
  \<open>length\<close> are the content. The constructor leaves \<open>buf\<close> null with length and
  capacity 0.
\<close>

record BasicOctetArray =
  buf_a :: "u8 list"
  length_a :: nat
  capacity_a :: nat

definition BasicOctetArray_new :: BasicOctetArray where
  "BasicOctetArray_new = \<lparr>buf_a = [], length_a = 0, capacity_a = 0\<rparr>"

definition get_length :: "BasicOctetArray \<Rightarrow> nat" where
  "get_length a = length_a a"

definition get_buf :: "BasicOctetArray \<Rightarrow> u8 list" where
  "get_buf a = buf_a a"

text \<open>
  \<open>memcpy(dst, src, n)\<close> on arrays as lists: the first \<open>n\<close> octets of \<open>dst\<close> are
  replaced by the first \<open>n\<close> octets of \<open>src\<close>. The C++ call is defined only when both
  arrays have \<open>n\<close> octets.
\<close>

definition memcpy_list :: "u8 list \<Rightarrow> u8 list \<Rightarrow> nat \<Rightarrow> u8 list" where
  "memcpy_list dst src n = take n src @ drop n dst"

text \<open>
  \<open>copy_content\<close> (lines 46-56). \<open>new unsigned char[capacity]\<close> gives an array of
  indeterminate octets, written here as zeros: the \<open>memcpy\<close> that follows overwrites
  all of them, since the new capacity is \<open>buf_length\<close>. The \<open>assert\<close> of line 53
  cannot fail (lemma \<open>copy_content_assert\<close>), so the function has no failing branch.
\<close>

definition copy_content :: "u8 list \<Rightarrow> nat \<Rightarrow> BasicOctetArray \<Rightarrow> BasicOctetArray" where
  "copy_content new_buf buf_length a =
     (let a1 = (if buf_length > capacity_a a
                then a\<lparr>capacity_a := buf_length, buf_a := replicate buf_length 0\<rparr>
                else a)
      in a1\<lparr>buf_a := memcpy_list (buf_a a1) new_buf buf_length, length_a := buf_length\<rparr>)"

text \<open>A sequence of calls, each with its source array and length, in order.\<close>

fun copy_contents :: "(u8 list \<times> nat) list \<Rightarrow> BasicOctetArray \<Rightarrow> BasicOctetArray" where
  "copy_contents [] a = a"
| "copy_contents ((new_buf, buf_length) # calls) a =
     copy_contents calls (copy_content new_buf buf_length a)"

section \<open>Variable-length encoding (src/IPFIXContentHandler.cpp, 543-578)\<close>

text \<open>
  The record is the list \<open>buf\<close> of the octets from the record's start to \<open>buf_end\<close>,
  so \<open>buf_end\<close> is \<open>length buf\<close> and the cursor \<open>*cur\<close> is an index into it. The
  function returns the decoded length and the moved cursor, or throws. \<open>ret\<close> is a
  \<open>uint16_t\<close>; \<open>(b1 << 8) + b2\<close> is at most 0xFFFF and is stored unchanged.
\<close>

definition decode_varlen_length :: "u8 list \<Rightarrow> nat \<Rightarrow> exn + (u16 \<times> nat)" where
  "decode_varlen_length buf cur =
     (if cur \<ge> length buf
      then Inl (FormatError ''first octet of varlen length encoding beyond buffer'')
      else
        let ret = (ucast (buf ! cur) :: u16) in
        (case (if ret < UCHAR_MAX then Inr (ret, cur + 1)
               else if cur + 3 > length buf
               then Inl (FormatError ''three-byte varlen length encoding beyond buffer'')
               else Inr (push_bit 8 (ucast (buf ! (cur + 1))) + ucast (buf ! (cur + 2)),
                         cur + 3))
         of Inl e \<Rightarrow> Inl e
          | Inr (ret', cur') \<Rightarrow>
              if cur' + unat ret' > length buf
              then Inl (FormatError ''varlen length goes beyond buffer'')
              else Inr (ret', cur')))"

section \<open>Information elements (src/lib/InfoElement.h)\<close>

text \<open>
  Modelled from the spec: IEType.h is not among the sources. The type kinds are the
  closed set of section 3 of the specification, under the names the switch of
  \<open>DecodePlan::DecodePlan\<close> uses for them.
\<close>

datatype IEType = kOctetArray | kUnsigned8 | kUnsigned16 | kUnsigned32 | kUnsigned64
  | kSigned8 | kSigned16 | kSigned32 | kSigned64 | kFloat32 | kFloat64 | kBoolean
  | kMacAddress | kString | kDateTimeSeconds | kDateTimeMilliseconds
  | kDateTimeMicroseconds | kDateTimeNanoseconds | kIpv4Address | kIpv6Address

text \<open>
  The private fields of \<open>InfoElement\<close> (lines 161-165), read through \<open>name()\<close>,
  \<open>pen()\<close>, \<open>number()\<close>, \<open>ietype()\<close> and \<open>len()\<close>. \<open>ietype\<close> is a pointer and may
  be null. A \<open>const InfoElement*\<close> is modelled by the element it points to: the
  information model holds one object per (pen, number, length), so two pointers into it
  are equal exactly when the elements are.
\<close>

record InfoElement =
  name_ie :: string
  pen_ie :: u32
  number_ie :: u16
  ietype_ie :: "IEType option"
  len_ie :: u16

definition matches :: "InfoElement \<Rightarrow> InfoElement \<Rightarrow> bool" where
  "matches ie rhs = (pen_ie ie = pen_ie rhs \<and> number_ie ie = number_ie rhs)"

section \<open>Decisions and destinations (src/IPFIXContentHandler.cpp, 125-184)\<close>

datatype decision_type_t = skip_fixlen | skip_varlen | transfer_fixlen | transfer_boolean
  | transfer_fixlen_endianness | transfer_fixlen_octets | transfer_float_into_double
  | transfer_float_into_double_endianness | transfer_varlen

text \<open>
  \<open>struct Decision\<close>: every field is always there, and means something only for the
  decision types the source's comments name. \<open>wire_ie\<close> is a pointer that need not be
  valid in a skip decision.
\<close>

record Decision =
  type_d :: decision_type_t
  length_d :: u16
  destination_size_d :: u16
  p_d :: addr
  wire_ie_d :: "InfoElement option"

text \<open>
  The caller's memory, by the kind of object a destination address is cast to:
  octets for the fixed-length transfers (\<open>uint8_t*\<close>), \<open>bool\<close>, \<open>double\<close> and
  \<open>BasicOctetArray\<close> objects. Objects of different kinds are taken to be disjoint.
  A double is not interpreted: a cell the executor wrote holds the value of the
  \<open>float\<close> whose object representation is the four given octets, in memory order.
\<close>

datatype double_t = double_of_float u8 u8 u8 u8 | other_double

record store =
  mem :: "addr \<Rightarrow> u8"
  bools :: "addr \<Rightarrow> bool"
  doubles :: "addr \<Rightarrow> double_t"
  octet_arrays :: "addr \<Rightarrow> BasicOctetArray"

definition memset :: "(addr \<Rightarrow> u8) \<Rightarrow> addr \<Rightarrow> u8 \<Rightarrow> nat \<Rightarrow> (addr \<Rightarrow> u8)" where
  "memset m q c n = (\<lambda>a. if q \<le> a \<and> a < q + n then c else m a)"

definition memcpy :: "(addr \<Rightarrow> u8) \<Rightarrow> addr \<Rightarrow> u8 list \<Rightarrow> nat \<Rightarrow> (addr \<Rightarrow> u8)" where
  "memcpy m dst src n = (\<lambda>a. if dst \<le> a \<and> a < dst + n then src ! (a - dst) else m a)"

text \<open>
  Lines 686-687: \<open>for (k = 0; k < length; k++) q[k] = cur[length - (k + 1)]\<close>, with
  \<open>src\<close> the octets from \<open>cur\<close> on.
\<close>

definition reverse_copy :: "(addr \<Rightarrow> u8) \<Rightarrow> addr \<Rightarrow> u8 list \<Rightarrow> nat \<Rightarrow> (addr \<Rightarrow> u8)" where
  "reverse_copy m q src len = fold (\<lambda>k m'. m'(q + k := src ! (len - (k + 1)))) [0..<len] m"

section \<open>DecodePlan::DecodePlan (src/IPFIXContentHandler.cpp, 247-541)\<close>

text \<open>
  PlacementTemplate.h is not among the sources. The constructor uses a placement
  template only through \<open>lookup_placement(ie, &d.p, 0)\<close>, so the template is taken as
  that function: the destination address registered for an element, if any.
\<close>

type_synonym PlacementTemplate = "InfoElement \<Rightarrow> addr option"

text \<open>
  The cases of the switch (lines 292-499) repeat three blocks, written once each here:
  a type with a native size (\<open>length > destination_size\<close> is an error), a type that
  must have exactly its native size (MAC and IP addresses), and octet arrays and strings.
  The messages leave out the formatted element and sizes.
\<close>

definition native_size_decision ::
  "Decision \<Rightarrow> decision_type_t \<Rightarrow> InfoElement \<Rightarrow> u16 \<Rightarrow> exn + Decision" where
  "native_size_decision d t ie native_size =
     (let d' = d\<lparr>type_d := t, length_d := len_ie ie, destination_size_d := native_size\<rparr>
      in if length_d d' > destination_size_d d'
         then Inl (FormatError ''IE length greater than native size'')
         else Inr d')"

definition exact_size_decision ::
  "Decision \<Rightarrow> decision_type_t \<Rightarrow> InfoElement \<Rightarrow> u16 \<Rightarrow> string \<Rightarrow> exn + Decision" where
  "exact_size_decision d t ie native_size message =
     (let d' = d\<lparr>type_d := t, length_d := len_ie ie, destination_size_d := native_size\<rparr>
      in if length_d d' \<noteq> native_size then Inl (FormatError message) else Inr d')"

definition octets_decision :: "Decision \<Rightarrow> InfoElement \<Rightarrow> exn + Decision" where
  "octets_decision d ie =
     (if len_ie ie = kVarlen then Inr (d\<lparr>type_d := transfer_varlen\<rparr>)
      else Inr (d\<lparr>type_d := transfer_fixlen_octets, length_d := len_ie ie\<rparr>))"

text \<open>
  \<open>big_endian\<close> is the host's byte order (\<open>IPFIX_BIG_ENDIAN\<close> or
  \<open>IPFIX_LITTLE_ENDIAN\<close>). \<open>d\<close> is the local \<open>Decision d\<close> with \<open>p\<close> and
  \<open>wire_ie\<close> set; its other fields still hold what the uninitialised local held. The
  first assert of the \<open>kFloat64\<close> case (lines 384-385) reads \<open>d.length\<close> before it is
  assigned. The \<open>default\<close> case is not reachable for the closed set of type kinds.
\<close>

definition transfer_decision :: "bool \<Rightarrow> Decision \<Rightarrow> InfoElement \<Rightarrow> IEType \<Rightarrow> exn + Decision" where
  "transfer_decision big_endian d ie t =
     (let transfer_fixlen_maybe_endianness =
            (if big_endian then transfer_fixlen else transfer_fixlen_endianness);
          transfer_float_into_double_maybe_endianness =
            (if big_endian then transfer_float_into_double
             else transfer_float_into_double_endianness)
      in case t of
        kOctetArray \<Rightarrow> octets_decision d ie
      | kUnsigned8 \<Rightarrow> native_size_decision d transfer_fixlen ie 1
      | kUnsigned16 \<Rightarrow> native_size_decision d transfer_fixlen_maybe_endianness ie 2
      | kUnsigned32 \<Rightarrow> native_size_decision d transfer_fixlen_maybe_endianness ie 4
      | kUnsigned64 \<Rightarrow> native_size_decision d transfer_fixlen_maybe_endianness ie 8
      | kSigned8 \<Rightarrow> native_size_decision d transfer_fixlen_maybe_endianness ie 1
      | kSigned16 \<Rightarrow> native_size_decision d transfer_fixlen_maybe_endianness ie 2
      | kSigned32 \<Rightarrow> native_size_decision d transfer_fixlen_maybe_endianness ie 4
      | kSigned64 \<Rightarrow> native_size_decision d transfer_fixlen_maybe_endianness ie 8
      | kFloat32 \<Rightarrow> native_size_decision d transfer_fixlen_maybe_endianness ie 4
      | kFloat64 \<Rightarrow>
          if \<not> (len_ie ie = 4 \<or> length_d d = 8) then Inl AssertionFailed
          else native_size_decision d
                 (if len_ie ie = 4 then transfer_float_into_double_maybe_endianness
                  else transfer_fixlen_maybe_endianness) ie 8
      | kBoolean \<Rightarrow> native_size_decision d transfer_boolean ie 1
      | kMacAddress \<Rightarrow>
          exact_size_decision d transfer_fixlen ie 6 ''MAC IE not 6 octets long''
      | kString \<Rightarrow> octets_decision d ie
      | kDateTimeSeconds \<Rightarrow> native_size_decision d transfer_fixlen_maybe_endianness ie 4
      | kDateTimeMilliseconds \<Rightarrow> native_size_decision d transfer_fixlen_maybe_endianness ie 8
      | kDateTimeMicroseconds \<Rightarrow>
          if len_ie ie \<noteq> 8 then Inl AssertionFailed
          else native_size_decision d transfer_fixlen_maybe_endianness ie 8
      | kDateTimeNanoseconds \<Rightarrow>
          if len_ie ie \<noteq> 8 then Inl AssertionFailed
          else native_size_decision d transfer_fixlen_maybe_endianness ie 8
      | kIpv4Address \<Rightarrow>
          exact_size_decision d transfer_fixlen_maybe_endianness ie 4
            ''IPv4 Address IE not 4 octets long''
      | kIpv6Address \<Rightarrow>
          exact_size_decision d transfer_fixlen ie 16 ''IPv6 Address IE not 16 octets long'')"

text \<open>One pass of the loop over the wire template (lines 274-513).\<close>

definition make_decision ::
  "bool \<Rightarrow> Decision \<Rightarrow> PlacementTemplate \<Rightarrow> InfoElement \<Rightarrow> exn + Decision" where
  "make_decision big_endian d lookup_placement ie =
     (case lookup_placement ie of
        Some q \<Rightarrow>
          (let d1 = d\<lparr>p_d := q, wire_ie_d := Some ie\<rparr>
           in case ietype_ie ie of
                None \<Rightarrow> Inl (FormatError ''IE has NULL ietype'')
              | Some t \<Rightarrow> transfer_decision big_endian d1 ie t)
      | None \<Rightarrow>
          if len_ie ie = kVarlen then Inr (d\<lparr>type_d := skip_varlen\<rparr>)
          else Inr (d\<lparr>type_d := skip_fixlen, length_d := len_ie ie\<rparr>))"

text \<open>
  The loop. \<open>uninit n\<close> is the indeterminate content of the local \<open>Decision d\<close> in
  pass \<open>n\<close>. A wire template is the list of its elements (\<open>assert(*ie != 0)\<close> holds
  by the type). An error thrown in a pass leaves no plan.
\<close>

fun make_decisions ::
  "bool \<Rightarrow> (nat \<Rightarrow> Decision) \<Rightarrow> PlacementTemplate \<Rightarrow> nat \<Rightarrow> InfoElement list
     \<Rightarrow> exn + Decision list" where
  "make_decisions big_endian uninit lookup_placement decision_number [] = Inr []"
| "make_decisions big_endian uninit lookup_placement decision_number (ie # ies) =
     (case make_decision big_endian (uninit decision_number) lookup_placement ie of
        Inl e \<Rightarrow> Inl e
      | Inr d \<Rightarrow>
          (case make_decisions big_endian uninit lookup_placement (decision_number + 1) ies of
             Inl e \<Rightarrow> Inl e
           | Inr plan \<Rightarrow> Inr (d # plan)))"

text \<open>
  The coalescing pass (lines 515-530). For a \<open>skip_fixlen\<close> decision, the inner loop
  runs \<open>skips\<close> over the decisions that follow while they are \<open>skip_fixlen\<close>, adding
  their lengths in a \<open>uint16_t\<close> (\<open>skips_length\<close>) and stopping at \<open>skips_end\<close>; the
  decisions passed over are erased and the sum stored in the first.
\<close>

fun skips_length :: "u16 \<Rightarrow> Decision list \<Rightarrow> u16" where
  "skips_length len [] = len"
| "skips_length len (s # skips) =
     (if type_d s = skip_fixlen then skips_length (len + length_d s) skips else len)"

fun skips_end :: "Decision list \<Rightarrow> Decision list" where
  "skips_end [] = []"
| "skips_end (s # skips) = (if type_d s = skip_fixlen then skips_end skips else s # skips)"

lemma length_skips_end [termination_simp]: "length (skips_end ds) \<le> length ds"
  by (induction ds) auto

fun coalesce :: "Decision list \<Rightarrow> Decision list" where
  "coalesce [] = []"
| "coalesce (d # next) =
     (if type_d d = skip_fixlen
      then d\<lparr>length_d := skips_length (length_d d) next\<rparr> # coalesce (skips_end next)
      else d # coalesce next)"

definition DecodePlan ::
  "bool \<Rightarrow> (nat \<Rightarrow> Decision) \<Rightarrow> PlacementTemplate \<Rightarrow> InfoElement list \<Rightarrow> exn + Decision list" where
  "DecodePlan big_endian uninit placement_template wire_template =
     (case make_decisions big_endian uninit placement_template 0 wire_template of
        Inl e \<Rightarrow> Inl e
      | Inr plan \<Rightarrow> Inr (coalesce plan))"

text \<open>No two neighbours in a plan are both \<open>skip_fixlen\<close>.\<close>

fun no_adjacent_skips :: "Decision list \<Rightarrow> bool" where
  "no_adjacent_skips [] = True"
| "no_adjacent_skips [d] = True"
| "no_adjacent_skips (d # e # ds) =
     (\<not> (type_d d = skip_fixlen \<and> type_d e = skip_fixlen) \<and> no_adjacent_skips (e # ds))"

section \<open>DecodePlan::execute (src/IPFIXContentHandler.cpp, 598-756)\<close>

text \<open>
  One pass of the \<open>switch\<close> (lines 609-751) for decision \<open>i\<close> at cursor \<open>cur\<close>. The
  arguments \<open>buf\<close> and \<open>length\<close> of \<open>execute\<close> are the list \<open>buf\<close> of the \<open>length\<close>
  octets at \<open>buf\<close>; \<open>buf_end\<close> is its length. The result is the new cursor or what was
  thrown, and the caller's memory as it is at that moment. Asserts are compiled in;
  each is a branch to \<open>AssertionFailed\<close>.
\<close>

definition exec_decision :: "Decision \<Rightarrow> u8 list \<Rightarrow> nat \<Rightarrow> store \<Rightarrow> (exn + nat) \<times> store" where
  "exec_decision i buf cur st =
     (let len = unat (length_d i); dsz = unat (destination_size_d i); q = p_d i;
          buf_end = length buf
      in case type_d i of
        skip_fixlen \<Rightarrow>
          if cur + len \<le> buf_end then (Inr (cur + len), st) else (Inl AssertionFailed, st)
      | skip_varlen \<Rightarrow>
          (case decode_varlen_length buf cur of
             Inl e \<Rightarrow> (Inl e, st)
           | Inr (varlen_length, cur') \<Rightarrow>
               if cur' + unat varlen_length \<le> buf_end
               then (Inr (cur' + unat varlen_length), st)
               else (Inl AssertionFailed, st))
      | transfer_boolean \<Rightarrow>
          if \<not> cur + 1 \<le> buf_end then (Inl AssertionFailed, st)
          else if buf ! cur = 1 then (Inr (cur + 1), st\<lparr>bools := (bools st)(q := True)\<rparr>)
          else if buf ! cur = 2 then (Inr (cur + 1), st\<lparr>bools := (bools st)(q := False)\<rparr>)
          else (Inl (FormatError ''bool encoding wrong''), st)
      | transfer_fixlen \<Rightarrow>
          if cur + len > buf_end then (Inl (FormatError ''IE length beyond buffer''), st)
          else if \<not> len \<le> dsz then (Inl AssertionFailed, st)
          else (Inr (cur + len),
                st\<lparr>mem := memcpy (memset (mem st) q 0 dsz) (q + dsz - len) (drop cur buf) len\<rparr>)
      | transfer_fixlen_endianness \<Rightarrow>
          if cur + len > buf_end then (Inl (FormatError ''IE length beyond buffer''), st)
          else if \<not> len \<le> dsz then (Inl AssertionFailed, st)
          else (Inr (cur + len),
                st\<lparr>mem := reverse_copy (memset (mem st) q 0 dsz) q (drop cur buf) len\<rparr>)
      | transfer_fixlen_octets \<Rightarrow>
          if \<not> cur + len \<le> buf_end then (Inl AssertionFailed, st)
          else (Inr (cur + len),
                st\<lparr>octet_arrays := (octet_arrays st)
                     (q := copy_content (drop cur buf) len (octet_arrays st q))\<rparr>)
      | transfer_float_into_double \<Rightarrow>
          if \<not> cur + 4 \<le> buf_end then (Inl AssertionFailed, st)
          else (Inr (cur + 4),
                st\<lparr>doubles := (doubles st)
                     (q := double_of_float (buf ! cur) (buf ! (cur + 1))
                             (buf ! (cur + 2)) (buf ! (cur + 3)))\<rparr>)
      | transfer_float_into_double_endianness \<Rightarrow>
          if \<not> cur + 4 \<le> buf_end then (Inl AssertionFailed, st)
          else (Inr (cur + 4),
                st\<lparr>doubles := (doubles st)
                     (q := double_of_float (buf ! (cur + 3)) (buf ! (cur + 2))
                             (buf ! (cur + 1)) (buf ! cur))\<rparr>)
      | transfer_varlen \<Rightarrow>
          (case decode_varlen_length buf cur of
             Inl e \<Rightarrow> (Inl e, st)
           | Inr (varlen_length, cur') \<Rightarrow>
               if \<not> cur' + unat varlen_length \<le> buf_end then (Inl AssertionFailed, st)
               else (Inr (cur' + unat varlen_length),
                     st\<lparr>octet_arrays := (octet_arrays st)
                          (q := copy_content (drop cur' buf) (unat varlen_length)
                                  (octet_arrays st q))\<rparr>)))"

text \<open>
  The \<open>for\<close> loop over the plan (lines 604-752), with its \<open>assert(cur < buf_end)\<close>
  at the head of every pass.
\<close>

fun execute_loop :: "Decision list \<Rightarrow> u8 list \<Rightarrow> nat \<Rightarrow> store \<Rightarrow> (exn + nat) \<times> store" where
  "execute_loop [] buf cur st = (Inr cur, st)"
| "execute_loop (i # plan) buf cur st =
     (if \<not> cur < length buf then (Inl AssertionFailed, st)
      else case exec_decision i buf cur st of
             (Inl e, st') \<Rightarrow> (Inl e, st')
           | (Inr cur', st') \<Rightarrow> execute_loop plan buf cur' st')"

definition execute :: "Decision list \<Rightarrow> u8 list \<Rightarrow> store \<Rightarrow> (exn + u16) \<times> store" where
  "execute plan buf st =
     (case execute_loop plan buf 0 st of
        (Inl e, st') \<Rightarrow> (Inl e, st')
      | (Inr cur, st') \<Rightarrow>
          if cur \<le> USHRT_MAX then (Inr (of_nat cur), st') else (Inl AssertionFailed, st'))"

text \<open>
  Reading destinations back: the octets at \<open>q .. q + n\<close>, and the unsigned value of an
  octet sequence with its least significant octet first (\<open>le_nat\<close>, how a little-endian
  host reads the destination) and last (\<open>be_nat\<close>, the wire order and a big-endian host).
\<close>

definition read_mem :: "(addr \<Rightarrow> u8) \<Rightarrow> addr \<Rightarrow> nat \<Rightarrow> u8 list" where
  "read_mem m q n = map (\<lambda>k. m (q + k)) [0..<n]"

primrec le_nat :: "u8 list \<Rightarrow> nat" where
  "le_nat [] = 0"
| "le_nat (b # bs) = unat b + 256 * le_nat bs"

definition be_nat :: "u8 list \<Rightarrow> nat" where
  "be_nat bs = le_nat (rev bs)"

section \<open>IETemplate (second file of src/lib/BasicOctetArray.cpp, lines 102-180)\<close>

text \<open>
  The members \<open>ies_\<close> and \<open>minlen_\<close>. \<open>minlen_\<close> is a \<open>size_t\<close>; a template has at
  most 65535 fields of at most 65535 octets, so it does not wrap and is a natural number.
\<close>

record IETemplate =
  ies_tmpl :: "InfoElement list"
  minlen_tmpl :: nat

definition IETemplate_new :: IETemplate where
  "IETemplate_new = \<lparr>ies_tmpl = [], minlen_tmpl = 0\<rparr>"

definition size_tmpl :: "IETemplate \<Rightarrow> nat" where
  "size_tmpl t = length (ies_tmpl t)"

definition minlen :: "IETemplate \<Rightarrow> nat" where
  "minlen t = minlen_tmpl t"

definition add :: "IETemplate \<Rightarrow> InfoElement \<Rightarrow> IETemplate" where
  "add t ie =
     t\<lparr>ies_tmpl := ies_tmpl t @ [ie],
       minlen_tmpl := (if len_ie ie = kIpfixVarlen then minlen_tmpl t + 1
                    else minlen_tmpl t + unat (len_ie ie))\<rparr>"

text \<open>
  \<open>operator==\<close> (lines 164-176) walks both element vectors in step, comparing the
  element pointers, and \<open>operator!=\<close> negates it.
\<close>

fun ies_equal :: "InfoElement list \<Rightarrow> InfoElement list \<Rightarrow> bool" where
  "ies_equal (l # ls) (r # rs) = (if l \<noteq> r then False else ies_equal ls rs)"
| "ies_equal [] [] = True"
| "ies_equal [] (r # rs) = False"
| "ies_equal (l # ls) [] = False"

definition IETemplate_eq :: "IETemplate \<Rightarrow> IETemplate \<Rightarrow> bool" where
  "IETemplate_eq t rhs = ies_equal (ies_tmpl t) (ies_tmpl rhs)"

definition IETemplate_ne :: "IETemplate \<Rightarrow> IETemplate \<Rightarrow> bool" where
  "IETemplate_ne t rhs = (\<not> IETemplate_eq t rhs)"

section \<open>Errors returned by the content handler\<close>

text \<open>
  The error kinds are those of \<open>Error::to_string\<close> (src/lib/Error.cpp, 47-77), and
  \<open>read_error\<close>, which the parser of src/unnamed/part_000 reports.
\<close>

datatype error_t = no_error | parse_while_parsing | input_source_cant_peek | aborted_by_user
  | system_error | short_header | short_body | long_set | long_fieldspec
  | message_version_number | short_message | ipfix_basetime | format_error
  | inconsistent_state | again | read_error

text \<open>
  Modelled from the spec: ErrorContext.h, with the macros \<open>LIBFC_RETURN_ERROR\<close> and
  \<open>LIBFC_RETURN_OK\<close>, is not among the sources. By section 7 of the specification an
  error context carries a kind and a recoverability;
  \<open>LIBFC_RETURN_ERROR(severity, kind, message, ...)\<close> returns one with the severity and
  kind it names, and \<open>LIBFC_RETURN_OK()\<close> returns none.
\<close>

datatype severity_t = recoverable | fatal

datatype ErrorContext = ErrorContext severity_t error_t string

section \<open>PlacementContentHandler (second file of src/lib/MessageStreamParser.h)\<close>

text \<open>
  An \<open>IETemplate*\<close> is its address together with the object at that address: a template
  is written only while it is the current wire template, and through that pointer only.
  Pointer identity is equality of addresses. Placement templates are known by their
  addresses.
\<close>

type_synonym template_ptr = "addr \<times> IETemplate"

text \<open>
  Modelled from the spec: PlacementContentHandler.h is not among the sources. The
  members are the ones the functions below use, with the types their uses show:
  \<open>wire_templates\<close> is the registry, keyed by the 64-bit template key of section 3 of
  the specification, \<open>matched_templates\<close> the cache from wire template to placement
  template, and \<open>incomplete_template_ids\<close> and \<open>unmatched_template_ids\<close> are sets of
  such keys (the handler inserts \<open>make_template_key(id)\<close> into both).
\<close>

record PlacementContentHandler =
  observation_domain :: u32
  current_template_id :: u16
  current_field_count :: u16
  current_field_no :: nat
  current_wire_template :: "template_ptr option"
  wire_templates :: "u64 \<Rightarrow> template_ptr option"
  matched_templates :: "addr \<Rightarrow> addr option"
  placement_templates :: "addr list"
  use_matched_template_cache :: bool
  incomplete_template_ids :: "u64 set"
  unmatched_template_ids :: "u64 set"
  parse_is_good :: bool
  start_message_handler ::
    "(u16 \<Rightarrow> u16 \<Rightarrow> u32 \<Rightarrow> u32 \<Rightarrow> u32 \<Rightarrow> u64 \<Rightarrow> ErrorContext option) option"

text \<open>Lines 330-332 and 508-513.\<close>

definition make_template_key :: "PlacementContentHandler \<Rightarrow> u16 \<Rightarrow> u64" where
  "make_template_key h tid = push_bit 16 (ucast (observation_domain h)) + ucast tid"

definition find_wire_template :: "PlacementContentHandler \<Rightarrow> u16 \<Rightarrow> template_ptr option" where
  "find_wire_template h id' = wire_templates h (make_template_key h id')"

text \<open>
  \<open>start_message\<close> (lines 204-244). \<open>CH_REPORT_ERROR(error, message)\<close> (lines
  145-149) clears \<open>parse_is_good\<close> and returns a recoverable error of that kind. The
  registered start-message handler, if there is one, is a collector's
  \<open>start_message\<close>, taken as a function of its arguments.
\<close>

definition start_message ::
  "PlacementContentHandler \<Rightarrow> u16 \<Rightarrow> u16 \<Rightarrow> u32 \<Rightarrow> u32 \<Rightarrow> u32 \<Rightarrow> u64
     \<Rightarrow> (exn + ErrorContext option) \<times> PlacementContentHandler" where
  "start_message h version len export_time sequence_number observation_domain' base_time =
     (if current_wire_template h \<noteq> None then (Inl AssertionFailed, h)
      else if version = kIpfixVersion \<and> base_time \<noteq> 0
      then (Inr (Some (ErrorContext recoverable ipfix_basetime
                         ''Expected base_time 0 for IPFIX'')),
            h\<lparr>parse_is_good := False\<rparr>)
      else if version = kIpfixVersion \<and> len < kIpfixMinMessageLen
      then (Inr (Some (ErrorContext recoverable short_message ''must be at least 16 bytes long'')),
            h\<lparr>parse_is_good := False\<rparr>)
      else
        (case start_message_handler h of
           Some handler \<Rightarrow>
             (Inr (handler version len export_time sequence_number observation_domain'
                     base_time),
              h\<lparr>observation_domain := observation_domain'\<rparr>)
         | None \<Rightarrow> (Inr None, h\<lparr>observation_domain := observation_domain'\<rparr>)))"

text \<open>
  \<open>start_template_record\<close> (lines 334-351); \<open>new_template\<close> is the address
  \<open>new IETemplate()\<close> returns.
\<close>

definition start_template_record ::
  "PlacementContentHandler \<Rightarrow> addr \<Rightarrow> u16 \<Rightarrow> u16
     \<Rightarrow> (exn + ErrorContext option) \<times> PlacementContentHandler" where
  "start_template_record h new_template template_id field_count =
     (if current_wire_template h \<noteq> None then (Inl AssertionFailed, h)
      else (Inr None,
            h\<lparr>current_template_id := template_id, current_field_count := field_count,
              current_field_no := 0,
              current_wire_template := Some (new_template, IETemplate_new)\<rparr>))"

text \<open>
  \<open>end_template_record\<close> (lines 353-409). \<open>erase(current_template_id)\<close> converts the
  16-bit id to the set's element type. \<open>delete\<close> of the old template has no effect on
  the members modelled. When the field counts differ the function returns before
  \<open>current_wire_template = 0\<close>.
\<close>

definition end_template_record ::
  "PlacementContentHandler \<Rightarrow> (exn + ErrorContext option) \<times> PlacementContentHandler" where
  "end_template_record h =
     (case current_wire_template h of
        None \<Rightarrow> (Inl AssertionFailed, h)
      | Some cw \<Rightarrow>
          let key = make_template_key h (current_template_id h);
              h1 =
               (if size_tmpl (snd cw) > 0
                then (case find_wire_template h (current_template_id h) of
                        Some my_wire_template \<Rightarrow>
                          if IETemplate_ne (snd my_wire_template) (snd cw)
                          then h\<lparr>incomplete_template_ids :=
                                   incomplete_template_ids h - {ucast (current_template_id h)},
                                 wire_templates := (wire_templates h)(key \<mapsto> cw),
                                 matched_templates :=
                                   (matched_templates h)(fst my_wire_template := None)\<rparr>
                          else h
                      | None \<Rightarrow> h\<lparr>wire_templates := (wire_templates h)(key \<mapsto> cw)\<rparr>)
                else h)
          in if unat (current_field_count h1) \<noteq> current_field_no h1
             then (Inr (Some (ErrorContext recoverable format_error ''Template field mismatch'')),
                   h1\<lparr>parse_is_good := False\<rparr>)
             else (Inr None, h1\<lparr>current_wire_template := None\<rparr>))"

text \<open>
  \<open>match_placement_template\<close> (lines 515-569). PlacementTemplate.cpp is not among the
  sources: \<open>is_match\<close> is a parameter, giving for a placement template and a wire
  template the number of matches it returns and the size of the set of unmatched
  elements it fills. The loop over the registered placement templates is
  \<open>match_loop\<close>. The function is \<open>const\<close> and writes the two \<open>mutable\<close> members.
\<close>

fun match_loop ::
  "(addr \<Rightarrow> IETemplate \<Rightarrow> nat \<times> nat) \<Rightarrow> PlacementContentHandler \<Rightarrow> u16 \<Rightarrow> template_ptr
     \<Rightarrow> addr list \<Rightarrow> (exn + addr option) \<times> PlacementContentHandler" where
  "match_loop is_match h id' wire_template [] = (Inr None, h)"
| "match_loop is_match h id' wire_template (i # rest) =
     (case is_match i (snd wire_template) of
        (n_matches, unmatched_size) \<Rightarrow>
          if n_matches > 0
          then if \<not> n_matches \<le> size_tmpl (snd wire_template) then (Inl AssertionFailed, h)
               else if n_matches < size_tmpl (snd wire_template)
                       \<and> unmatched_size \<noteq> size_tmpl (snd wire_template) - n_matches
               then (Inl AssertionFailed, h)
               else
                 let h1 = (if n_matches < size_tmpl (snd wire_template)
                              \<and> make_template_key h id' \<notin> incomplete_template_ids h
                           then h\<lparr>incomplete_template_ids :=
                                    insert (make_template_key h id') (incomplete_template_ids h)\<rparr>
                           else h)
                 in (Inr (Some i),
                     h1\<lparr>matched_templates := (matched_templates h1)(fst wire_template \<mapsto> i)\<rparr>)
          else match_loop is_match h id' wire_template rest)"

definition match_placement_template ::
  "(addr \<Rightarrow> IETemplate \<Rightarrow> nat \<times> nat) \<Rightarrow> PlacementContentHandler \<Rightarrow> u16 \<Rightarrow> template_ptr
     \<Rightarrow> (exn + addr option) \<times> PlacementContentHandler" where
  "match_placement_template is_match h id' wire_template =
     (case (if use_matched_template_cache h then matched_templates h (fst wire_template)
            else None) of
        None \<Rightarrow> match_loop is_match h id' wire_template (placement_templates h)
      | Some m \<Rightarrow> (Inr (Some m), h))"

section \<open>IPFIXContentHandler (src/IPFIXContentHandler.cpp, 889-951)\<close>

text \<open>
  The older content handler, with the members \<open>end_template_record\<close> uses. It throws
  \<open>FormatError\<close> where the placement handler returns an error, and has no assert on
  the current wire template before it calls through it.
\<close>

record IPFIXContentHandler =
  observation_domain_i :: u32
  current_template_id_i :: u16
  current_field_count_i :: u16
  current_field_no_i :: nat
  current_wire_template_i :: "template_ptr option"
  wire_templates_i :: "u64 \<Rightarrow> template_ptr option"
  parse_is_good_i :: bool

definition make_template_key_i :: "IPFIXContentHandler \<Rightarrow> u16 \<Rightarrow> u64" where
  "make_template_key_i h tid = push_bit 16 (ucast (observation_domain_i h)) + ucast tid"

definition end_template_record_i :: "IPFIXContentHandler \<Rightarrow> (exn + unit) \<times> IPFIXContentHandler" where
  "end_template_record_i h =
     (case current_wire_template_i h of
        None \<Rightarrow> (Inl NullDereference, h)
      | Some cw \<Rightarrow>
          let h1 = (if size_tmpl (snd cw) > 0
                    then h\<lparr>wire_templates_i :=
                             (wire_templates_i h)
                               (make_template_key_i h (current_template_id_i h) \<mapsto> cw)\<rparr>
                    else h)
          in if unat (current_field_count_i h1) \<noteq> current_field_no_i h1
             then (Inl (FormatError ''Template field mismatch''), h1\<lparr>parse_is_good_i := False\<rparr>)
             else (Inr (), h1\<lparr>current_wire_template_i := None\<rparr>))"

section \<open>IPFIXMessageStreamParser::parse (second file of src/unnamed/part_000)\<close>

text \<open>
  Modelled from the spec: decode_util.h is not among the sources. By section 6 of the
  specification all wire integers are big-endian; \<open>decode_uint16(p)\<close> and
  \<open>decode_uint32(p)\<close> read one at \<open>p\<close>, here at index \<open>k\<close> of the octets \<open>b\<close>.
\<close>

definition decode_uint16 :: "u8 list \<Rightarrow> nat \<Rightarrow> u16" where
  "decode_uint16 b k = push_bit 8 (ucast (b ! k)) OR ucast (b ! (k + 1))"

definition decode_uint32 :: "u8 list \<Rightarrow> nat \<Rightarrow> u32" where
  "decode_uint32 b k =
     push_bit 24 (ucast (b ! k)) OR push_bit 16 (ucast (b ! (k + 1)))
       OR push_bit 8 (ucast (b ! (k + 2))) OR ucast (b ! (k + 3))"

text \<open>
  The input source is \<open>BufferInputSource\<close> (src/unnamed/part_003): a copy of \<open>len\<close>
  octets and a read offset. \<open>read\<close> gives the number of octets copied, the octets,
  and the source after the call; it never reports an error.
\<close>

record BufferInputSource =
  buf_s :: "u8 list"
  len_s :: nat
  off_s :: nat

definition BufferInputSource_new :: "u8 list \<Rightarrow> nat \<Rightarrow> BufferInputSource" where
  "BufferInputSource_new b n = \<lparr>buf_s = take n b, len_s = n, off_s = 0\<rparr>"

definition read :: "BufferInputSource \<Rightarrow> nat \<Rightarrow> int \<times> u8 list \<times> BufferInputSource" where
  "read s result_len =
     (let bytes_to_copy = (if off_s s + result_len > len_s s then len_s s - off_s s
                           else result_len)
      in (int bytes_to_copy, take bytes_to_copy (drop (off_s s) (buf_s s)),
          s\<lparr>off_s := off_s s + bytes_to_copy\<rparr>))"

text \<open>
  What \<open>parse\<close> does to its collaborators, in order: the calls of the content handler
  with their arguments (a pointer into the message as its index) and the calls of
  \<open>error_handler->fatal\<close> with the error kind.
\<close>

datatype event = ev_start_session | ev_end_session
  | ev_start_message u16 u16 u32 u32 u32 u64 | ev_end_message
  | ev_start_template_set u16 u16 nat | ev_end_template_set
  | ev_start_options_template_set u16 u16 nat | ev_end_options_template_set
  | ev_start_data_set u16 u16 nat | ev_end_data_set
  | ev_fatal error_t

text \<open>
  The loop over the sets of a message (lines 226-266). \<open>set_length -
  kIpfixSetHeaderLen\<close> is passed as a \<open>uint16_t\<close>; the cursor moves by the header and
  then by the same difference, to \<open>set_end\<close>, so the two asserts that close the loop
  body hold. A set length of 0 leaves the cursor where it is: the loops are given fuel,
  and \<open>None\<close> is a run that needs more. The result says whether the message is to be
  ended (\<open>True\<close>) or \<open>parse\<close> has returned after \<open>long_set\<close>.
\<close>

fun decode_sets ::
  "nat \<Rightarrow> u8 list \<Rightarrow> nat \<Rightarrow> nat \<Rightarrow> event list \<Rightarrow> (bool \<times> event list) option" where
  "decode_sets 0 message message_end cur evs = None"
| "decode_sets (Suc fuel) message message_end cur evs =
     (if cur + kIpfixSetHeaderLen \<le> message_end
      then
        let set_id = decode_uint16 message cur;
            set_length = decode_uint16 message (cur + 2);
            set_end = cur + unat set_length
        in if set_end > message_end then Some (False, evs @ [ev_fatal long_set])
           else
             let cur1 = cur + kIpfixSetHeaderLen;
                 payload_length = set_length - of_nat kIpfixSetHeaderLen;
                 calls =
                   (if set_id = kIpfixTemplateSetID
                    then [ev_start_template_set set_id payload_length cur1, ev_end_template_set]
                    else if set_id = kIpfixOptionTemplateSetID
                    then [ev_start_options_template_set set_id payload_length cur1,
                          ev_end_options_template_set]
                    else [ev_start_data_set set_id payload_length cur1, ev_end_data_set])
             in decode_sets fuel message message_end set_end (evs @ calls)
      else Some (True, evs))"

text \<open>
  The loop over the messages (lines 161-273); \<open>nbytes\<close> and \<open>message\<close> are the result
  of the read of the header that precedes each pass. The message buffer is the header
  followed by the body. The result is the calls made, and \<open>AssertionFailed\<close> if the
  run ended in a failed assertion instead of returning.
\<close>

fun parse_messages ::
  "nat \<Rightarrow> BufferInputSource \<Rightarrow> int \<Rightarrow> u8 list \<Rightarrow> event list
     \<Rightarrow> (exn option \<times> event list) option" where
  "parse_messages 0 is nbytes message evs = None"
| "parse_messages (Suc fuel) is nbytes message evs =
     (if nbytes > 0
      then
        if nat nbytes < kIpfixMessageHeaderLen then Some (None, evs @ [ev_fatal short_header])
        else if nat nbytes \<noteq> kIpfixMessageHeaderLen then Some (Some AssertionFailed, evs)
        else if decode_uint16 message 0 \<noteq> kIpfixVersion
        then Some (None, evs @ [ev_fatal message_version_number])
        else
          let message_size = decode_uint16 message 2;
              evs1 = evs @ [ev_start_message (decode_uint16 message 0) message_size
                              (decode_uint32 message 4) (decode_uint32 message 8)
                              (decode_uint32 message 12) 0];
              message_end = unat message_size;
              cur = nat nbytes
          in if \<not> cur \<le> message_end then Some (Some AssertionFailed, evs1)
             else
               (case read is (unat message_size - kIpfixMessageHeaderLen) of
                  (nbytes2, body, is2) \<Rightarrow>
                    if nbytes2 < 0 then Some (None, evs1 @ [ev_fatal read_error])
                    else if nat nbytes2 \<noteq> unat message_size - kIpfixMessageHeaderLen
                    then Some (None, evs1 @ [ev_fatal short_body])
                    else
                      (case decode_sets fuel (message @ body) message_end cur evs1 of
                         None \<Rightarrow> None
                       | Some (False, evs2) \<Rightarrow> Some (None, evs2)
                       | Some (True, evs2) \<Rightarrow>
                           (case read is2 kIpfixMessageHeaderLen of
                              (nbytes3, message3, is3) \<Rightarrow>
                                parse_messages fuel is3 nbytes3 message3
                                  (evs2 @ [ev_end_message]))))
      else if nbytes < 0 then Some (None, evs @ [ev_fatal read_error])
      else Some (None, evs @ [ev_end_session]))"

text \<open>\<open>parse\<close> (lines 141-283): the first read of a header, then the loop.\<close>

definition parse :: "nat \<Rightarrow> BufferInputSource \<Rightarrow> (exn option \<times> event list) option" where
  "parse fuel is =
     (case read is kIpfixMessageHeaderLen of
        (nbytes, message, is1) \<Rightarrow> parse_messages fuel is1 nbytes message [ev_start_session])"

section \<open>Decoding the records of a data set (PlacementContentHandler::start_data_set)\<close>

text \<open>\<open>wire_template_min_length\<close> (lines 672-681); \<open>min\<close> is a \<open>uint16_t\<close>.\<close>

definition wire_template_min_length :: "IETemplate \<Rightarrow> u16" where
  "wire_template_min_length t =
     fold (\<lambda>i m. if len_ie i \<noteq> kIpfixVarlen then m + len_ie i else m) (ies_tmpl t) 0"

text \<open>
  The collector registered for the placement template (src/unnamed/part_005): its two
  callbacks get the placement template, see the caller's memory, may change the
  collector's own state \<open>'c\<close>, and return an error context or none.
\<close>

record 'c PlacementCollector =
  start_placement :: "addr \<Rightarrow> 'c \<Rightarrow> store \<Rightarrow> ErrorContext option \<times> 'c"
  end_placement :: "addr \<Rightarrow> 'c \<Rightarrow> store \<Rightarrow> ErrorContext option \<times> 'c"

text \<open>
  The state of the loop of lines 637-645: the cursor as an index into the set's
  payload, the remaining length, the caller's memory, the collector, and (for the
  statements below) the calls made to it so far. A run ends by leaving the loop, by
  returning a callback's error (\<open>CH_REPORT_CALLBACK_ERROR\<close>) or by an exception out of
  \<open>execute\<close>; a pass that consumes nothing repeats for ever, so the loop is given fuel.
\<close>

datatype call = StartPlacement | EndPlacement

datatype result = Done | Returned ErrorContext | Thrown exn

record 'c records_state =
  cur_r :: nat
  length_r :: u16
  store_r :: store
  collector_r :: 'c
  calls_r :: "call list"

fun records_loop ::
  "nat \<Rightarrow> 'c PlacementCollector \<Rightarrow> addr \<Rightarrow> Decision list \<Rightarrow> u16 \<Rightarrow> u8 list \<Rightarrow> nat
     \<Rightarrow> 'c records_state \<Rightarrow> (result \<times> 'c records_state) option" where
  "records_loop 0 callback placement_template plan min_length buf buf_end s = None"
| "records_loop (Suc fuel) callback placement_template plan min_length buf buf_end s =
     (if cur_r s < buf_end \<and> length_r s \<ge> min_length
      then
        (case start_placement callback placement_template (collector_r s) (store_r s) of
           (Some err, c1) \<Rightarrow>
             Some (Returned err,
                   s\<lparr>collector_r := c1, calls_r := calls_r s @ [StartPlacement]\<rparr>)
         | (None, c1) \<Rightarrow>
             (case execute plan (take (unat (length_r s)) (drop (cur_r s) buf)) (store_r s) of
                (Inl e, st1) \<Rightarrow>
                  Some (Thrown e,
                        s\<lparr>store_r := st1, collector_r := c1,
                          calls_r := calls_r s @ [StartPlacement]\<rparr>)
              | (Inr consumed, st1) \<Rightarrow>
                  (case end_placement callback placement_template c1 st1 of
                     (Some err, c2) \<Rightarrow>
                       Some (Returned err,
                             s\<lparr>store_r := st1, collector_r := c2,
                               calls_r := calls_r s @ [StartPlacement, EndPlacement]\<rparr>)
                   | (None, c2) \<Rightarrow>
                       records_loop fuel callback placement_template plan min_length buf buf_end
                         (s\<lparr>cur_r := cur_r s + unat consumed,
                            length_r := length_r s - consumed,
                            store_r := st1, collector_r := c2,
                            calls_r := calls_r s @ [StartPlacement, EndPlacement]\<rparr>))))
      else Some (Done, s))"

text \<open>
  Lines 628-647 of \<open>start_data_set\<close>: what the function does once the wire template
  and the placement template are found. \<open>callback\<close> is the entry of \<open>callbacks\<close> for
  the placement template, if there is one.
\<close>

definition start_data_set_records ::
  "nat \<Rightarrow> bool \<Rightarrow> (nat \<Rightarrow> Decision) \<Rightarrow> 'c PlacementCollector option \<Rightarrow> addr
     \<Rightarrow> PlacementTemplate \<Rightarrow> IETemplate \<Rightarrow> u16 \<Rightarrow> u8 list \<Rightarrow> store \<Rightarrow> 'c
     \<Rightarrow> (result \<times> 'c records_state) option" where
  "start_data_set_records fuel big_endian uninit callback placement_template
     lookup_placement wire_template len buf st c =
     (let s = \<lparr>cur_r = 0, length_r = len, store_r = st, collector_r = c, calls_r = []\<rparr>
      in case DecodePlan big_endian uninit lookup_placement (ies_tmpl wire_template) of
           Inl e \<Rightarrow> Some (Thrown e, s)
         | Inr plan \<Rightarrow>
             (case callback of
                None \<Rightarrow> Some (Thrown AssertionFailed, s)
              | Some cb \<Rightarrow>
                  records_loop fuel cb placement_template plan
                    (wire_template_min_length wire_template) buf (unat len) s))"

section \<open>Example data\<close>

text \<open>A memory of 0xAA octets, and a decision without a wire element.\<close>

definition example_store :: store where
  "example_store = \<lparr>mem = (\<lambda>a. 0xAA), bools = (\<lambda>a. False), doubles = (\<lambda>a. other_double),
                     octet_arrays = (\<lambda>a. BasicOctetArray_new)\<rparr>"

definition decision :: "decision_type_t \<Rightarrow> u16 \<Rightarrow> u16 \<Rightarrow> addr \<Rightarrow> Decision" where
  "decision t l d q =
     \<lparr>type_d = t, length_d = l, destination_size_d = d, p_d = q, wire_ie_d = None\<rparr>"

definition example_ie :: "u16 \<Rightarrow> IEType \<Rightarrow> u16 \<Rightarrow> InfoElement" where
  "example_ie n t l = \<lparr>name_ie = [], pen_ie = 0, number_ie = n, ietype_ie = Some t, len_ie = l\<rparr>"

text \<open>A placement template with one element, number 8 of the standard registry, at address 100.\<close>

definition example_placement :: PlacementTemplate where
  "example_placement ie = (if pen_ie ie = 0 \<and> number_ie ie = 8 then Some 100 else None)"

text \<open>
  Two wire templates, and a placement handler in observation domain 1 that holds the
  first under template id 256 (key 0x10100, object at address 10) and has one placement
  template (address 5) registered. \<open>example_marked\<close> is the handler after a data set
  of id 256 was matched by a placement template covering one of the two fields;
  \<open>example_redeclared\<close> is that handler at the end of a later template record that
  declares id 256 with the second template (object at address 11).
\<close>

definition example_template :: IETemplate where
  "example_template =
     add (add IETemplate_new (example_ie 8 kIpv4Address 4)) (example_ie 1 kUnsigned16 2)"

definition example_template' :: IETemplate where
  "example_template' = add IETemplate_new (example_ie 8 kIpv4Address 4)"

definition example_handler :: PlacementContentHandler where
  "example_handler =
     \<lparr>observation_domain = 1, current_template_id = 0, current_field_count = 0,
      current_field_no = 0, current_wire_template = None,
      wire_templates = [0x10100 \<mapsto> (10, example_template)],
      matched_templates = Map.empty, placement_templates = [5],
      use_matched_template_cache = True, incomplete_template_ids = {},
      unmatched_template_ids = {}, parse_is_good = True, start_message_handler = None\<rparr>"

definition example_marked :: PlacementContentHandler where
  "example_marked =
     snd (match_placement_template (\<lambda>p t. (1, 1)) example_handler 256 (10, example_template))"

definition example_redeclared :: PlacementContentHandler where
  "example_redeclared =
     example_marked\<lparr>current_template_id := 256, current_field_count := 1,
       current_field_no := 1, current_wire_template := Some (11, example_template')\<rparr>"

definition example_handler_i :: IPFIXContentHandler where
  "example_handler_i =
     \<lparr>observation_domain_i = 1, current_template_id_i = 256, current_field_count_i = 0,
      current_field_no_i = 0, current_wire_template_i = Some (11, IETemplate_new),
      wire_templates_i = [0x10100 \<mapsto> (10, example_template)], parse_is_good_i = True\<rparr>"

text \<open>
  A collector that notes, at the end of each placement, the 32-bit number
  at address 100 as a little-endian host reads it; a wire template of a varlen string
  and an IPv4 address.
\<close>

definition example_collector :: "(nat list) PlacementCollector" where
  "example_collector =
     \<lparr>start_placement = (\<lambda>t c st. (None, c)),
      end_placement = (\<lambda>t c st. (None, c @ [le_nat (read_mem (mem st) 100 4)]))\<rparr>"

definition example_wire :: IETemplate where
  "example_wire = add (add IETemplate_new (example_ie 82 kString 0xFFFF)) (example_ie 8 kIpv4Address 4)"

text \<open>
  A wire template of two octet arrays of 40000 octets each and an IPv4 address; only
  the address is placed by \<open>example_placement\<close>.
\<close>

definition example_long :: IETemplate where
  "example_long =
     add (add (add IETemplate_new (example_ie 1 kOctetArray 40000))
            (example_ie 2 kOctetArray 40000)) (example_ie 8 kIpv4Address 4)"

text \<open>
  A data set of two records for \<open>example_wire\<close>, decoded on a little-endian host for
  \<open>example_placement\<close>.
\<close>

definition example_records :: "(result \<times> (nat list) records_state) option" where
  "example_records =
     start_data_set_records (Suc (Suc (Suc 0))) False (\<lambda>n. decision skip_varlen 0 0 0)
       (Some example_collector) 5 example_placement example_wire 12
       [0x02, 0x41, 0x42, 0xC0, 0x00, 0x02, 0x01, 0x00, 0x0A, 0x00, 0x00, 0x01]
       example_store []"

section \<open>Properties of the octet array\<close>

lemma copy_content_assert:
  "buf_length \<le> capacity_a (copy_content new_buf buf_length a)"
  by (simp add: copy_content_def Let_def)

lemma capacity_copy_content:
  "capacity_a (copy_content new_buf buf_length a) = max (capacity_a a) buf_length"
  by (simp add: copy_content_def Let_def max_def)

lemma capacity_copy_contents:
  "capacity_a a \<le> capacity_a (copy_contents calls a)"
proof (induction calls arbitrary: a)
  case Nil
  show ?case by simp
next
  case (Cons c calls)
  obtain new_buf buf_length where c: "c = (new_buf, buf_length)"
    by (cases c)
  have "capacity_a a \<le> capacity_a (copy_content new_buf buf_length a)"
    by (simp add: capacity_copy_content)
  also have "\<dots> \<le> capacity_a (copy_contents calls (copy_content new_buf buf_length a))"
    by (rule Cons.IH)
  finally show ?case by (simp add: c)
qed

text \<open>
  C10: after \<open>copy_content(new_buf, buf_length)\<close>, where \<open>new_buf\<close> has at least
  \<open>buf_length\<close> octets, \<open>get_length()\<close> is \<open>buf_length\<close> and the first \<open>buf_length\<close>
  octets of \<open>get_buf()\<close> are those of \<open>new_buf\<close>; the capacity after a call is the
  larger of the old capacity and \<open>buf_length\<close>, so it changes only when \<open>buf_length\<close>
  exceeds it, and over any sequence of calls it never decreases.
\<close>

theorem copy_content_spec:
  "(buf_length \<le> length new_buf \<longrightarrow>
      get_length (copy_content new_buf buf_length a) = buf_length \<and>
      take buf_length (get_buf (copy_content new_buf buf_length a)) = take buf_length new_buf) \<and>
   capacity_a a \<le> capacity_a (copy_content new_buf buf_length a) \<and>
   (capacity_a (copy_content new_buf buf_length a) \<noteq> capacity_a a \<longrightarrow>
      capacity_a a < buf_length \<and> capacity_a (copy_content new_buf buf_length a) = buf_length) \<and>
   capacity_a a \<le> capacity_a (copy_contents calls a)"
proof -
  have "get_length (copy_content new_buf buf_length a) = buf_length"
    by (simp add: copy_content_def get_length_def Let_def)
  moreover have "take buf_length (get_buf (copy_content new_buf buf_length a)) = take buf_length new_buf"
    if "buf_length \<le> length new_buf"
    using that by (simp add: copy_content_def get_buf_def memcpy_list_def Let_def)
  moreover have "capacity_a a \<le> capacity_a (copy_content new_buf buf_length a)"
    by (simp add: capacity_copy_content)
  moreover have "capacity_a a < buf_length \<and> capacity_a (copy_content new_buf buf_length a) = buf_length"
    if "capacity_a (copy_content new_buf buf_length a) \<noteq> capacity_a a"
    using that by (simp add: capacity_copy_content max_def split: if_splits)
  moreover have "capacity_a a \<le> capacity_a (copy_contents calls a)"
    by (rule capacity_copy_contents)
  ultimately show ?thesis by blast
qed

theorem copy_content_spec_witness:
  "get_length (copy_content [0x41, 0x42, 0x43] 3 BasicOctetArray_new) = 3 \<and>
   take 3 (get_buf (copy_content [0x41, 0x42, 0x43] 3 BasicOctetArray_new)) = [0x41, 0x42, 0x43] \<and>
   capacity_a (copy_content [0x41, 0x42, 0x43] 3 BasicOctetArray_new) = 3 \<and>
   capacity_a (copy_contents [([0x41, 0x42, 0x43], 3), ([0x44], 1)] BasicOctetArray_new) = 3 \<and>
   get_length (copy_contents [([0x41, 0x42, 0x43], 3), ([0x44], 1)] BasicOctetArray_new) = 1"
  using copy_content_spec [of 3 "[0x41, 0x42, 0x43]" BasicOctetArray_new "[]"]
  by (simp add: copy_content_def BasicOctetArray_new_def get_length_def get_buf_def
      memcpy_list_def Let_def)

section \<open>Properties of the variable-length encoding\<close>

lemma be16_or:
  "push_bit 8 (ucast (a::u8) :: u16) + ucast (b::u8) = push_bit 8 (ucast a) OR ucast b"
proof (rule disjunctive_add_eq_or)
  show "push_bit 8 (ucast a :: u16) AND ucast b = 0"
    by (rule bit_eqI) (auto simp: bit_simps dest: bit_imp_le_length)
qed

lemma unat_u8_less: "unat (b::u8) < 256"
  using unsigned_less [of b, where ?'a = nat] by simp

lemma unat_ucast_u8: "unat (ucast (b::u8) :: u16) = unat b"
proof -
  have "unat b < 2 ^ 16" using unat_u8_less [of b] by simp
  then show ?thesis by (simp add: unsigned_ucast_eq take_bit_nat_eq_self)
qed

lemma ucast_u8_less_UCHAR_MAX:
  "((ucast (b::u8) :: u16) < UCHAR_MAX) = (b < 255)"
  by (simp add: UCHAR_MAX_def word_less_nat_alt unat_ucast_u8)

lemma not_less_255: "\<not> (b::u8) < 255 \<Longrightarrow> b = 255"
proof -
  assume "\<not> b < 255"
  then have "255 \<le> unat b" by (simp add: word_less_nat_alt)
  moreover have "unat b < 256" by (rule unat_u8_less)
  ultimately have "unat b = unat (255 :: u8)" by simp
  then show "b = 255" by (rule word_unat_eq_iff [THEN iffD2])
qed

text \<open>
  C5: with \<open>b0\<close> the octet under the cursor: if \<open>b0 < 255\<close> the length is \<open>b0\<close> and
  one octet is consumed; otherwise three octets are consumed and the length is
  \<open>(b1 << 8) | b2\<close>, whatever its value (also below 255). In both cases the length is
  returned only if the payload ends at or before \<open>buf_end\<close>; if it would cross
  \<open>buf_end\<close>, or the length octets themselves are not all in the buffer, a
  \<open>FormatError\<close> is thrown and no cursor is returned.
\<close>

theorem decode_varlen_length_spec:
  "(cur < length buf \<and> buf ! cur < 255 \<longrightarrow>
      (cur + 1 + unat (buf ! cur) \<le> length buf \<longrightarrow>
         decode_varlen_length buf cur = Inr (ucast (buf ! cur), cur + 1)) \<and>
      (cur + 1 + unat (buf ! cur) > length buf \<longrightarrow>
         is_format_error (decode_varlen_length buf cur))) \<and>
   (cur < length buf \<and> \<not> buf ! cur < 255 \<and> cur + 3 \<le> length buf \<longrightarrow>
      buf ! cur = 255 \<and>
      (cur + 3 + unat (push_bit 8 (ucast (buf ! (cur + 1)) :: u16) OR ucast (buf ! (cur + 2)))
           \<le> length buf \<longrightarrow>
         decode_varlen_length buf cur =
           Inr (push_bit 8 (ucast (buf ! (cur + 1))) OR ucast (buf ! (cur + 2)), cur + 3)) \<and>
      (cur + 3 + unat (push_bit 8 (ucast (buf ! (cur + 1)) :: u16) OR ucast (buf ! (cur + 2)))
           > length buf \<longrightarrow>
         is_format_error (decode_varlen_length buf cur))) \<and>
   (cur \<ge> length buf \<or> (\<not> buf ! cur < 255 \<and> cur + 3 > length buf) \<longrightarrow>
      is_format_error (decode_varlen_length buf cur))"
proof (intro conjI impI)
  assume "cur < length buf \<and> buf ! cur < 255"
     and "cur + 1 + unat (buf ! cur) \<le> length buf"
  then show "decode_varlen_length buf cur = Inr (ucast (buf ! cur), cur + 1)"
    by (simp add: decode_varlen_length_def Let_def ucast_u8_less_UCHAR_MAX unat_ucast_u8)
next
  assume "cur < length buf \<and> buf ! cur < 255"
     and "length buf < cur + 1 + unat (buf ! cur)"
  then show "is_format_error (decode_varlen_length buf cur)"
    by (simp add: decode_varlen_length_def Let_def ucast_u8_less_UCHAR_MAX unat_ucast_u8)
next
  assume "cur < length buf \<and> \<not> buf ! cur < 255 \<and> cur + 3 \<le> length buf"
  then show "buf ! cur = 255" by (simp add: not_less_255)
next
  assume "cur < length buf \<and> \<not> buf ! cur < 255 \<and> cur + 3 \<le> length buf"
     and "cur + 3 + unat (push_bit 8 (ucast (buf ! (cur + 1)) :: u16) OR ucast (buf ! (cur + 2)))
            \<le> length buf"
  then show "decode_varlen_length buf cur =
      Inr (push_bit 8 (ucast (buf ! (cur + 1))) OR ucast (buf ! (cur + 2)), cur + 3)"
    by (simp add: decode_varlen_length_def Let_def ucast_u8_less_UCHAR_MAX be16_or)
next
  assume "cur < length buf \<and> \<not> buf ! cur < 255 \<and> cur + 3 \<le> length buf"
     and "length buf
            < cur + 3 + unat (push_bit 8 (ucast (buf ! (cur + 1)) :: u16) OR ucast (buf ! (cur + 2)))"
  then show "is_format_error (decode_varlen_length buf cur)"
    by (simp add: decode_varlen_length_def Let_def ucast_u8_less_UCHAR_MAX be16_or)
next
  assume "length buf \<le> cur \<or> (\<not> buf ! cur < 255 \<and> length buf < cur + 3)"
  then show "is_format_error (decode_varlen_length buf cur)"
    by (auto simp: decode_varlen_length_def Let_def ucast_u8_less_UCHAR_MAX)
qed

theorem decode_varlen_length_spec_witness:
  "decode_varlen_length [0x03, 0x41, 0x42, 0x43] 0 = Inr (3, 1) \<and>
   is_format_error (decode_varlen_length [0x04, 0x41, 0x42, 0x43] 0) \<and>
   decode_varlen_length [0xFF, 0x00, 0x03, 0x41, 0x42, 0x43] 0 = Inr (3, 3) \<and>
   is_format_error (decode_varlen_length [0xFF, 0x01, 0x00, 0x41, 0x42, 0x43] 0) \<and>
   is_format_error (decode_varlen_length [0xFF, 0x00] 0)"
  using decode_varlen_length_spec [of 0 "[0x03, 0x41, 0x42, 0x43]"]
        decode_varlen_length_spec [of 0 "[0x04, 0x41, 0x42, 0x43]"]
        decode_varlen_length_spec [of 0 "[0xFF, 0x00, 0x03, 0x41, 0x42, 0x43]"]
        decode_varlen_length_spec [of 0 "[0xFF, 0x01, 0x00, 0x41, 0x42, 0x43]"]
        decode_varlen_length_spec [of 0 "[0xFF, 0x00]"]
  by simp

section \<open>Properties of the fixed-length and boolean transfers\<close>

lemma fold_upd_upt:
  "fold (\<lambda>k m'. m'(q + k := f k)) [0..<n] m a =
     (if q \<le> a \<and> a < q + n then f (a - q) else m a)"
proof (induction n)
  case 0
  show ?case by auto
next
  case (Suc n)
  show ?case
  proof (cases "a = q + n")
    case True
    then show ?thesis by simp
  next
    case False
    then show ?thesis using Suc by auto
  qed
qed

lemma reverse_copy_apply:
  "reverse_copy m q src len a =
     (if q \<le> a \<and> a < q + len then src ! (len - (a - q + 1)) else m a)"
  unfolding reverse_copy_def by (rule fold_upd_upt)

lemma le_nat_append: "le_nat (xs @ ys) = le_nat xs + 256 ^ length xs * le_nat ys"
  by (induction xs) (simp_all add: algebra_simps)

lemma le_nat_replicate_0: "le_nat (replicate n 0) = 0"
  by (induction n) simp_all

lemma le_nat_zero_extend: "le_nat (bs @ replicate n 0) = le_nat bs"
  by (simp add: le_nat_append le_nat_replicate_0)

lemma be_nat_zero_extend: "be_nat (replicate n 0 @ bs) = be_nat bs"
  by (simp add: be_nat_def le_nat_zero_extend)

lemma read_mem_fixlen:
  assumes "len \<le> dsz" "len \<le> length src"
  shows "read_mem (memcpy (memset m q 0 dsz) (q + dsz - len) src len) q dsz
           = replicate (dsz - len) 0 @ take len src"
  using assms
  by (intro nth_equalityI) (auto simp: read_mem_def memcpy_def memset_def nth_append)

lemma read_mem_endian:
  assumes "len \<le> dsz" "len \<le> length src"
  shows "read_mem (reverse_copy (memset m q 0 dsz) q src len) q dsz
           = rev (take len src) @ replicate (dsz - len) 0"
  using assms
  by (intro nth_equalityI)
     (auto simp: read_mem_def reverse_copy_apply memset_def nth_append rev_nth)

lemma read_mem_4: "read_mem m q 4 = [m q, m (q + 1), m (q + 2), m (q + 3)]"
  by (simp add: read_mem_def upt_rec numeral_3_eq_3)

text \<open>
  C2: a \<open>transfer_fixlen\<close> decision with wire length \<open>len\<close> and destination size
  \<open>dsz\<close>, \<open>len \<le> dsz\<close>, whose \<open>len\<close> octets are in the buffer, zeroes the \<open>dsz\<close>
  destination octets and then copies the wire octets right-justified:
  the first \<open>dsz - len\<close> destination octets are 0 and the last \<open>len\<close> are the wire
  octets in order. A \<open>transfer_fixlen_endianness\<close> decision zeroes the destination and
  stores \<open>dst[k] = src[len - 1 - k]\<close> for \<open>k < len\<close>, the rest staying 0. Nothing
  outside the destination changes. Read in the host's order (big-endian for the first,
  little-endian for the second), the destination holds the unsigned value of the wire
  octets: the value is zero-extended, never sign-extended.
\<close>

theorem transfer_fixlen_zero_extends:
  fixes i :: Decision and buf :: "u8 list" and cur :: nat and st :: store
  defines "len \<equiv> unat (length_d i)"
      and "dsz \<equiv> unat (destination_size_d i)"
      and "q \<equiv> p_d i"
      and "m' \<equiv> mem (snd (exec_decision i buf cur st))"
  shows
  "(type_d i = transfer_fixlen \<and> cur + len \<le> length buf \<and> len \<le> dsz \<longrightarrow>
      exec_decision i buf cur st =
        (Inr (cur + len),
         st\<lparr>mem := memcpy (memset (mem st) q 0 dsz) (q + dsz - len) (drop cur buf) len\<rparr>) \<and>
      (\<forall>k. k < dsz - len \<longrightarrow> m' (q + k) = 0) \<and>
      (\<forall>k. k < len \<longrightarrow> m' (q + (dsz - len) + k) = buf ! (cur + k)) \<and>
      (\<forall>a. a < q \<or> q + dsz \<le> a \<longrightarrow> m' a = mem st a) \<and>
      be_nat (read_mem m' q dsz) = be_nat (take len (drop cur buf))) \<and>
   (type_d i = transfer_fixlen_endianness \<and> cur + len \<le> length buf \<and> len \<le> dsz \<longrightarrow>
      exec_decision i buf cur st =
        (Inr (cur + len),
         st\<lparr>mem := reverse_copy (memset (mem st) q 0 dsz) q (drop cur buf) len\<rparr>) \<and>
      (\<forall>k. k < len \<longrightarrow> m' (q + k) = buf ! (cur + (len - 1 - k))) \<and>
      (\<forall>k. len \<le> k \<and> k < dsz \<longrightarrow> m' (q + k) = 0) \<and>
      (\<forall>a. a < q \<or> q + dsz \<le> a \<longrightarrow> m' a = mem st a) \<and>
      le_nat (read_mem m' q dsz) = be_nat (take len (drop cur buf)))"
proof (intro conjI impI)
  assume a: "type_d i = transfer_fixlen \<and> cur + len \<le> length buf \<and> len \<le> dsz"
  then have e: "exec_decision i buf cur st =
        (Inr (cur + len),
         st\<lparr>mem := memcpy (memset (mem st) q 0 dsz) (q + dsz - len) (drop cur buf) len\<rparr>)"
    by (simp add: exec_decision_def Let_def len_def dsz_def q_def)
  then show "exec_decision i buf cur st =
        (Inr (cur + len),
         st\<lparr>mem := memcpy (memset (mem st) q 0 dsz) (q + dsz - len) (drop cur buf) len\<rparr>)" .
  from e have m: "m' = memcpy (memset (mem st) q 0 dsz) (q + dsz - len) (drop cur buf) len"
    by (simp add: m'_def)
  from a show "\<forall>k. k < dsz - len \<longrightarrow> m' (q + k) = 0"
    by (auto simp: m memcpy_def memset_def)
  from a show "\<forall>k. k < len \<longrightarrow> m' (q + (dsz - len) + k) = buf ! (cur + k)"
    by (auto simp: m memcpy_def memset_def)
  from a show "\<forall>a. a < q \<or> q + dsz \<le> a \<longrightarrow> m' a = mem st a"
    by (auto simp: m memcpy_def memset_def)
  have "read_mem m' q dsz = replicate (dsz - len) 0 @ take len (drop cur buf)"
    unfolding m using a by (intro read_mem_fixlen) auto
  then show "be_nat (read_mem m' q dsz) = be_nat (take len (drop cur buf))"
    by (simp add: be_nat_zero_extend)
next
  assume a: "type_d i = transfer_fixlen_endianness \<and> cur + len \<le> length buf \<and> len \<le> dsz"
  then have e: "exec_decision i buf cur st =
        (Inr (cur + len),
         st\<lparr>mem := reverse_copy (memset (mem st) q 0 dsz) q (drop cur buf) len\<rparr>)"
    by (simp add: exec_decision_def Let_def len_def dsz_def q_def)
  then show "exec_decision i buf cur st =
        (Inr (cur + len),
         st\<lparr>mem := reverse_copy (memset (mem st) q 0 dsz) q (drop cur buf) len\<rparr>)" .
  from e have m: "m' = reverse_copy (memset (mem st) q 0 dsz) q (drop cur buf) len"
    by (simp add: m'_def)
  from a show "\<forall>k. k < len \<longrightarrow> m' (q + k) = buf ! (cur + (len - 1 - k))"
    by (auto simp: m reverse_copy_apply)
  from a show "\<forall>k. len \<le> k \<and> k < dsz \<longrightarrow> m' (q + k) = 0"
    by (auto simp: m reverse_copy_apply memset_def)
  from a show "\<forall>a. a < q \<or> q + dsz \<le> a \<longrightarrow> m' a = mem st a"
    by (auto simp: m reverse_copy_apply memset_def)
  have "read_mem m' q dsz = rev (take len (drop cur buf)) @ replicate (dsz - len) 0"
    unfolding m using a by (intro read_mem_endian) auto
  then show "le_nat (read_mem m' q dsz) = be_nat (take len (drop cur buf))"
    by (simp add: le_nat_zero_extend be_nat_def)
qed

theorem transfer_fixlen_zero_extends_witness:
  "read_mem (mem (snd (exec_decision (decision transfer_fixlen 2 4 100) [0x12, 0x34] 0 example_store))) 100 4
     = [0x00, 0x00, 0x12, 0x34] \<and>
   read_mem (mem (snd (exec_decision (decision transfer_fixlen_endianness 2 4 100) [0x12, 0x34] 0 example_store))) 100 4
     = [0x34, 0x12, 0x00, 0x00] \<and>
   le_nat (read_mem (mem (snd (exec_decision (decision transfer_fixlen_endianness 2 4 100) [0x12, 0x34] 0 example_store))) 100 4)
     = 0x1234 \<and>
   le_nat (read_mem (mem (snd (exec_decision (decision transfer_fixlen_endianness 1 4 100) [0xFF] 0 example_store))) 100 4)
     = 0xFF \<and>
   be_nat (read_mem (mem (snd (exec_decision (decision transfer_fixlen 1 4 100) [0xFF] 0 example_store))) 100 4)
     = 0xFF"
  using transfer_fixlen_zero_extends [of "decision transfer_fixlen 2 4 100" 0 "[0x12, 0x34]" example_store]
        transfer_fixlen_zero_extends [of "decision transfer_fixlen_endianness 2 4 100" 0 "[0x12, 0x34]" example_store]
        transfer_fixlen_zero_extends [of "decision transfer_fixlen_endianness 1 4 100" 0 "[0xFF]" example_store]
        transfer_fixlen_zero_extends [of "decision transfer_fixlen 1 4 100" 0 "[0xFF]" example_store]
  by (simp add: decision_def example_store_def read_mem_4 memcpy_def memset_def
      reverse_copy_apply be_nat_def)

text \<open>
  C6: a \<open>transfer_boolean\<close> decision whose octet is in the buffer stores true for the
  octet 1 and false for the octet 2, consuming that one octet, and the plan goes on
  from there; for any other octet it throws \<open>FormatError\<close> with the caller's memory
  as it was before the decision, and nothing after it in the plan is executed.
\<close>

theorem transfer_boolean_spec:
  "type_d i = transfer_boolean \<and> cur < length buf \<longrightarrow>
     (buf ! cur = 1 \<longrightarrow>
        exec_decision i buf cur st = (Inr (cur + 1), st\<lparr>bools := (bools st)(p_d i := True)\<rparr>) \<and>
        execute_loop (i # plan) buf cur st =
          execute_loop plan buf (cur + 1) (st\<lparr>bools := (bools st)(p_d i := True)\<rparr>)) \<and>
     (buf ! cur = 2 \<longrightarrow>
        exec_decision i buf cur st = (Inr (cur + 1), st\<lparr>bools := (bools st)(p_d i := False)\<rparr>) \<and>
        execute_loop (i # plan) buf cur st =
          execute_loop plan buf (cur + 1) (st\<lparr>bools := (bools st)(p_d i := False)\<rparr>)) \<and>
     (buf ! cur \<noteq> 1 \<and> buf ! cur \<noteq> 2 \<longrightarrow>
        exec_decision i buf cur st = (Inl (FormatError ''bool encoding wrong''), st) \<and>
        execute_loop (i # plan) buf cur st = (Inl (FormatError ''bool encoding wrong''), st))"
  by (simp add: exec_decision_def Let_def)

theorem transfer_boolean_spec_witness:
  "bools (snd (execute [decision transfer_boolean 1 1 7] [1] example_store)) 7 = True \<and>
   fst (execute [decision transfer_boolean 1 1 7] [1] example_store) = Inr 1 \<and>
   bools (snd (execute [decision transfer_boolean 1 1 7] [2]
                 (example_store\<lparr>bools := (\<lambda>a. True)\<rparr>))) 7 = False \<and>
   fst (execute [decision transfer_boolean 1 1 7] [2] example_store) = Inr 1 \<and>
   execute [decision transfer_boolean 1 1 7, decision transfer_boolean 1 1 8] [0, 1] example_store
     = (Inl (FormatError ''bool encoding wrong''), example_store)"
  using transfer_boolean_spec [of "decision transfer_boolean 1 1 7" 0 "[1]" example_store "[]"]
        transfer_boolean_spec [of "decision transfer_boolean 1 1 7" 0 "[2]"
                                  "example_store\<lparr>bools := (\<lambda>a. True)\<rparr>" "[]"]
        transfer_boolean_spec [of "decision transfer_boolean 1 1 7" 0 "[2]" example_store "[]"]
        transfer_boolean_spec [of "decision transfer_boolean 1 1 7" 0 "[0, 1]" example_store
                                  "[decision transfer_boolean 1 1 8]"]
  by (simp add: execute_def decision_def USHRT_MAX_def)

section \<open>Bounds checks of the executor\<close>

text \<open>
  C1: not every decision that would move the cursor past \<open>buf + length\<close> throws
  \<open>FormatError\<close>. The fixed-length and varlen transfers and the varlen skip do (last
  two lines); the fixed-length skip, the octet copy, the float read and the boolean
  transfer are guarded by \<open>assert\<close> only, as is the cursor at the head of each pass, so
  there the program aborts on a failed assertion (and reads or moves past the end when
  asserts are compiled out). First line: a wire template of an unplaced varlen field
  and an unplaced 4-octet field, and a record of 4 octets whose varlen field takes 3.
\<close>

theorem execute_overrun_not_format_error:
  "execute [decision skip_varlen 0 0 0, decision skip_fixlen 4 0 0] [0x02, 0x41, 0x42, 0x43]
     example_store = (Inl AssertionFailed, example_store) \<and>
   execute [decision skip_fixlen 4 0 0] [0x00, 0x00] example_store
     = (Inl AssertionFailed, example_store) \<and>
   execute [decision transfer_fixlen_octets 4 0 9] [0x00, 0x00] example_store
     = (Inl AssertionFailed, example_store) \<and>
   execute [decision transfer_float_into_double 4 8 9] [0x00, 0x00] example_store
     = (Inl AssertionFailed, example_store) \<and>
   execute [decision skip_fixlen 2 0 0, decision transfer_boolean 1 1 7] [0x00, 0x01]
     example_store = (Inl AssertionFailed, example_store) \<and>
   execute [decision transfer_fixlen 4 4 100] [0x00, 0x00] example_store
     = (Inl (FormatError ''IE length beyond buffer''), example_store) \<and>
   execute [decision transfer_varlen 0 0 9] [0x05, 0x00] example_store
     = (Inl (FormatError ''varlen length goes beyond buffer''), example_store)"
  by (simp add: execute_def exec_decision_def decision_def decode_varlen_length_def
      UCHAR_MAX_def)

lemma exec_decision_cursor:
  "fst (exec_decision i buf cur st) = Inr cur' \<Longrightarrow> cur' \<le> length buf"
  by (cases "type_d i")
     (auto simp: exec_decision_def Let_def split: if_splits sum.splits prod.splits)

lemma execute_loop_cursor:
  "fst (execute_loop plan buf cur st) = Inr c \<Longrightarrow> cur \<le> length buf \<Longrightarrow> c \<le> length buf"
proof (induction plan arbitrary: cur st)
  case Nil
  then show ?case by simp
next
  case (Cons i plan)
  show ?case
  proof (cases "exec_decision i buf cur st")
    case (Pair r st')
    show ?thesis
    proof (cases r)
      case (Inl e)
      with Pair Cons.prems show ?thesis by (simp split: if_splits)
    next
      case (Inr cur')
      with Pair have "cur' \<le> length buf"
        using exec_decision_cursor [of i buf cur st cur'] by simp
      with Pair Inr Cons.prems Cons.IH [of cur' st'] show ?thesis
        by (simp split: if_splits)
    qed
  qed
qed

text \<open>
  What the executor does guarantee: a count it returns is at most the length of the
  buffer; a fixed-length transfer whose wire octets would end past \<open>buf_end\<close> throws
  \<open>FormatError\<close> and leaves the caller's memory as it was; so does a varlen skip or
  transfer when \<open>decode_varlen_length\<close> throws.
\<close>

theorem execute_bounds:
  "(fst (execute plan buf st) = Inr n \<longrightarrow> unat n \<le> length buf) \<and>
   ((type_d i = transfer_fixlen \<or> type_d i = transfer_fixlen_endianness) \<and>
    cur + unat (length_d i) > length buf \<longrightarrow>
      exec_decision i buf cur st = (Inl (FormatError ''IE length beyond buffer''), st)) \<and>
   ((type_d i = skip_varlen \<or> type_d i = transfer_varlen) \<and>
    decode_varlen_length buf cur = Inl e \<longrightarrow>
      exec_decision i buf cur st = (Inl e, st))"
proof (intro conjI impI)
  assume a: "fst (execute plan buf st) = Inr n"
  obtain r st' where l: "execute_loop plan buf 0 st = (r, st')"
    by (cases "execute_loop plan buf 0 st")
  with a obtain c where c: "r = Inr c" "c \<le> USHRT_MAX" "n = of_nat c"
    by (cases r) (auto simp: execute_def split: if_splits)
  from l c(1) have "c \<le> length buf"
    using execute_loop_cursor [of plan buf 0 st c] by simp
  moreover from c(2) have "unat (of_nat c :: u16) = c"
    by (simp add: unat_of_nat USHRT_MAX_def)
  ultimately show "unat n \<le> length buf" by (simp add: c(3))
next
  assume "(type_d i = transfer_fixlen \<or> type_d i = transfer_fixlen_endianness) \<and>
    cur + unat (length_d i) > length buf"
  then show "exec_decision i buf cur st = (Inl (FormatError ''IE length beyond buffer''), st)"
    by (auto simp: exec_decision_def Let_def)
next
  assume "(type_d i = skip_varlen \<or> type_d i = transfer_varlen) \<and>
    decode_varlen_length buf cur = Inl e"
  then show "exec_decision i buf cur st = (Inl e, st)"
    by (auto simp: exec_decision_def Let_def)
qed

theorem execute_bounds_witness:
  "fst (execute [decision skip_varlen 0 0 0, decision transfer_fixlen_endianness 4 4 100]
          [0x03, 0x41, 0x42, 0x43, 0xC0, 0x00, 0x02, 0x01] example_store) = Inr 8 \<and>
   exec_decision (decision transfer_fixlen 4 4 100) [0x00, 0x00] 0 example_store
     = (Inl (FormatError ''IE length beyond buffer''), example_store) \<and>
   exec_decision (decision transfer_varlen 0 0 9) [0x05, 0x00] 0 example_store
     = (Inl (FormatError ''varlen length goes beyond buffer''), example_store)"
  using execute_bounds [of "[decision skip_varlen 0 0 0, decision transfer_fixlen_endianness 4 4 100]"
          "[0x03, 0x41, 0x42, 0x43, 0xC0, 0x00, 0x02, 0x01]" example_store 8
          "decision transfer_fixlen 4 4 100" 0]
        execute_bounds [of "[]" "[0x05, 0x00]" example_store 0
          "decision transfer_varlen 0 0 9" 0 "FormatError ''varlen length goes beyond buffer''"]
  by (simp add: execute_def exec_decision_def decision_def decode_varlen_length_def
      UCHAR_MAX_def USHRT_MAX_def)

section \<open>Properties of the compiled plan\<close>

lemma skips_end_head: "skips_end ds = s # rest \<Longrightarrow> type_d s \<noteq> skip_fixlen"
  by (induction ds) (auto split: if_splits)

lemma coalesce_head:
  "type_d s \<noteq> skip_fixlen \<Longrightarrow> coalesce (s # rest) = s # coalesce rest"
  by simp

lemma coalesce_no_adjacent_skips: "no_adjacent_skips (coalesce ds)"
proof (induction ds rule: coalesce.induct)
  case 1
  show ?case by simp
next
  case (2 d rest)
  show ?case
  proof (cases "type_d d = skip_fixlen")
    case True
    show ?thesis
    proof (cases "skips_end rest")
      case Nil
      with True show ?thesis by simp
    next
      case (Cons s r)
      then have "type_d s \<noteq> skip_fixlen" by (rule skips_end_head)
      with True Cons 2(1) show ?thesis by simp
    qed
  next
    case False
    show ?thesis
    proof (cases "coalesce rest")
      case Nil
      with False show ?thesis by simp
    next
      case (Cons e r)
      with False 2(2) show ?thesis by simp
    qed
  qed
qed

lemma no_adjacent_skips_nth:
  "no_adjacent_skips ds \<Longrightarrow> Suc k < length ds \<Longrightarrow>
     \<not> (type_d (ds ! k) = skip_fixlen \<and> type_d (ds ! Suc k) = skip_fixlen)"
proof (induction ds arbitrary: k rule: no_adjacent_skips.induct)
  case 1
  then show ?case by simp
next
  case (2 d)
  then show ?case by simp
next
  case (3 d e ds)
  show ?case
  proof (cases k)
    case 0
    with 3(2) show ?thesis by simp
  next
    case (Suc j)
    with 3 show ?thesis by simp
  qed
qed

lemma skips_run:
  assumes "\<forall>s \<in> set run. type_d s = skip_fixlen"
      and "post = [] \<or> type_d (hd post) \<noteq> skip_fixlen"
  shows "skips_length len (run @ post) = len + sum_list (map length_d run)"
    and "skips_end (run @ post) = post"
  using assms
proof (induction run arbitrary: len)
  case Nil
  { case 1 then show ?case by (cases post) auto }
  { case 2 then show ?case by (cases post) auto }
next
  case (Cons s run)
  { case 1 then show ?case using Cons.IH(1) [of "len + length_d s"] by (simp add: add.assoc) }
  { case 2 then show ?case using Cons.IH(2) by simp }
qed

lemma skips_prefix:
  assumes "\<exists>s \<in> set pre. type_d s \<noteq> skip_fixlen"
  shows "skips_length len (pre @ ds) = skips_length len pre"
    and "skips_end (pre @ ds) = skips_end pre @ ds"
    and "skips_end pre \<noteq> []"
    and "last (skips_end pre) = last pre"
  using assms
proof (induction pre arbitrary: len)
  case Nil
  { case 1 then show ?case by simp }
  { case 2 then show ?case by simp }
  { case 3 then show ?case by simp }
  { case 4 then show ?case by simp }
next
  case (Cons s pre)
  { case 1 then show ?case using Cons.IH(1) by auto }
  { case 2 then show ?case using Cons.IH(2) by auto }
  { case 3 then show ?case using Cons.IH(3) by auto }
  { case 4 then show ?case using Cons.IH(3,4) by auto }
qed

lemma coalesce_append:
  "pre = [] \<or> type_d (last pre) \<noteq> skip_fixlen \<Longrightarrow>
     coalesce (pre @ ds) = coalesce pre @ coalesce ds"
proof (induction pre rule: coalesce.induct)
  case 1
  show ?case by simp
next
  case (2 d rest)
  show ?case
  proof (cases "type_d d = skip_fixlen")
    case True
    with 2(3) have ne: "rest \<noteq> []" by auto
    with 2(3) have l: "type_d (last rest) \<noteq> skip_fixlen" by simp
    with ne have ex: "\<exists>s \<in> set rest. type_d s \<noteq> skip_fixlen"
      using last_in_set by blast
    have "coalesce (skips_end rest @ ds) = coalesce (skips_end rest) @ coalesce ds"
      using 2(1) [OF True] skips_prefix(3,4) [OF ex] l by simp
    with True show ?thesis
      by (simp add: skips_prefix(1,2) [OF ex])
  next
    case False
    have "rest = [] \<or> type_d (last rest) \<noteq> skip_fixlen"
      using 2(3) by (cases rest) auto
    with False 2(2) show ?thesis by simp
  qed
qed

lemma coalesce_run:
  assumes "run \<noteq> []" "\<forall>s \<in> set run. type_d s = skip_fixlen"
      and "post = [] \<or> type_d (hd post) \<noteq> skip_fixlen"
  shows "coalesce (run @ post) =
           (hd run)\<lparr>length_d := sum_list (map length_d run)\<rparr> # coalesce post"
proof -
  from assms(1) obtain d rest where run: "run = d # rest" by (cases run) auto
  with assms(2) have r: "\<forall>s \<in> set rest. type_d s = skip_fixlen" and d: "type_d d = skip_fixlen"
    by auto
  show ?thesis
    using d by (simp add: run skips_run [OF r assms(3)])
qed

lemma unat_sum_list_u16:
  "unat (sum_list (ls :: u16 list)) = sum_list (map unat ls) mod 65536"
proof (induction ls)
  case Nil
  show ?case by simp
next
  case (Cons l ls)
  have "unat (l + sum_list ls) = (unat l + unat (sum_list ls)) mod 65536"
    by (simp add: unat_word_ariths)
  also have "\<dots> = (unat l + sum_list (map unat ls)) mod 65536"
    by (simp add: Cons mod_add_right_eq)
  finally show ?case by simp
qed

text \<open>
  What the coalescing pass does guarantee: in every plan the constructor returns, no
  two adjacent decisions are both \<open>skip_fixlen\<close>; each maximal run of consecutive
  \<open>skip_fixlen\<close> decisions becomes the first of them, with the \<open>uint16_t\<close> sum of the
  run's lengths as its length, and the decisions before and after the run are
  coalesced on their own. The \<open>uint16_t\<close> sum is the sum of the lengths modulo 65536.
\<close>

theorem coalesced_plan:
  "(DecodePlan big_endian uninit placement_template wire_template = Inr plan \<longrightarrow>
      (\<forall>k. Suc k < length plan \<longrightarrow>
         \<not> (type_d (plan ! k) = skip_fixlen \<and> type_d (plan ! Suc k) = skip_fixlen))) \<and>
   (run \<noteq> [] \<and> (\<forall>s \<in> set run. type_d s = skip_fixlen) \<and>
    (pre = [] \<or> type_d (last pre) \<noteq> skip_fixlen) \<and>
    (post = [] \<or> type_d (hd post) \<noteq> skip_fixlen) \<longrightarrow>
      coalesce (pre @ run @ post) =
        coalesce pre @ (hd run)\<lparr>length_d := sum_list (map length_d run)\<rparr> # coalesce post \<and>
      unat (sum_list (map length_d run)) = sum_list (map (unat \<circ> length_d) run) mod 65536)"
proof (intro conjI impI allI)
  fix k
  assume "DecodePlan big_endian uninit placement_template wire_template = Inr plan"
     and k: "Suc k < length plan"
  then obtain ds where "plan = coalesce ds"
    by (auto simp: DecodePlan_def split: sum.splits)
  then have "no_adjacent_skips plan" by (simp add: coalesce_no_adjacent_skips)
  then show "\<not> (type_d (plan ! k) = skip_fixlen \<and> type_d (plan ! Suc k) = skip_fixlen)"
    using k by (rule no_adjacent_skips_nth)
next
  assume a: "run \<noteq> [] \<and> (\<forall>s \<in> set run. type_d s = skip_fixlen) \<and>
    (pre = [] \<or> type_d (last pre) \<noteq> skip_fixlen) \<and>
    (post = [] \<or> type_d (hd post) \<noteq> skip_fixlen)"
  then show "coalesce (pre @ run @ post) =
        coalesce pre @ (hd run)\<lparr>length_d := sum_list (map length_d run)\<rparr> # coalesce post"
    by (simp add: coalesce_append coalesce_run)
  show "unat (sum_list (map length_d run)) = sum_list (map (unat \<circ> length_d) run) mod 65536"
    by (simp add: unat_sum_list_u16)
qed

theorem coalesced_plan_witness:
  "DecodePlan False (\<lambda>n. decision skip_varlen 0 0 0) example_placement
     [example_ie 1 kUnsigned16 2, example_ie 2 kUnsigned32 4, example_ie 4 kUnsigned64 8,
      example_ie 8 kIpv4Address 4]
     = Inr [decision skip_fixlen 14 0 0,
            \<lparr>type_d = transfer_fixlen_endianness, length_d = 4, destination_size_d = 4,
             p_d = 100, wire_ie_d = Some (example_ie 8 kIpv4Address 4)\<rparr>] \<and>
   coalesce ([decision transfer_boolean 1 1 7] @
             [decision skip_fixlen 2 0 0, decision skip_fixlen 4 0 0, decision skip_fixlen 8 0 0] @
             [decision skip_varlen 0 0 0])
     = [decision transfer_boolean 1 1 7, decision skip_fixlen 14 0 0, decision skip_varlen 0 0 0]"
  using coalesced_plan [of False "\<lambda>n. decision skip_varlen 0 0 0" example_placement
          "[example_ie 1 kUnsigned16 2, example_ie 2 kUnsigned32 4, example_ie 4 kUnsigned64 8,
            example_ie 8 kIpv4Address 4]"
          "[decision skip_fixlen 14 0 0,
            \<lparr>type_d = transfer_fixlen_endianness, length_d = 4, destination_size_d = 4,
             p_d = 100, wire_ie_d = Some (example_ie 8 kIpv4Address 4)\<rparr>]"
          "[decision skip_fixlen 2 0 0, decision skip_fixlen 4 0 0, decision skip_fixlen 8 0 0]"
          "[decision transfer_boolean 1 1 7]" "[decision skip_varlen 0 0 0]"]
  by (simp add: DecodePlan_def make_decision_def transfer_decision_def
      exact_size_decision_def example_ie_def example_placement_def decision_def kVarlen_def
      Let_def)

text \<open>
  C8: the length of a coalesced skip is not always the sum of the lengths of the run.
  \<open>length += skips->length\<close> adds in a \<open>uint16_t\<close> and nothing checks the sum, while
  each field length comes from the wire and may be as large as 65534. For the wire
  template of two unplaced octet arrays of 40000 octets and a placed IPv4 address the
  plan skips 14464 octets, not 80000, before it reads the address. The template's own
  minimum length, kept by \<open>IETemplate::add\<close> in a \<open>size_t\<close>, is 80004;
  \<open>wire_template_min_length\<close> wraps like the skip, to 14468, so a data set of 14468
  octets is decoded as one record of this template, the address taken from its last
  four octets.
\<close>

theorem coalesced_length_overflows:
  "DecodePlan False (\<lambda>n. decision skip_varlen 0 0 0) example_placement (ies_tmpl example_long)
     = Inr [decision skip_fixlen 14464 0 0,
            \<lparr>type_d = transfer_fixlen_endianness, length_d = 4, destination_size_d = 4,
             p_d = 100, wire_ie_d = Some (example_ie 8 kIpv4Address 4)\<rparr>] \<and>
   unat (14464 :: u16) \<noteq> sum_list (map (unat \<circ> len_ie) (take 2 (ies_tmpl example_long))) \<and>
   sum_list (map (unat \<circ> len_ie) (take 2 (ies_tmpl example_long))) = 80000 \<and>
   minlen example_long = 80004 \<and>
   wire_template_min_length example_long = 14468 \<and>
   map_option (\<lambda>(r, s). (r, cur_r s, length_r s, collector_r s, calls_r s))
     (start_data_set_records (Suc (Suc 0)) False (\<lambda>n. decision skip_varlen 0 0 0)
        (Some example_collector) 5 example_placement example_long 14468
        (replicate 14464 0 @ [0xC0, 0x00, 0x02, 0x01])
        example_store [])
     = Some (Done, 14468, 0, [0xC0000201], [StartPlacement, EndPlacement])"
proof -
  have plan: "DecodePlan False (\<lambda>n. decision skip_varlen 0 0 0) example_placement
                (ies_tmpl example_long)
              = Inr [decision skip_fixlen 14464 0 0,
                     \<lparr>type_d = transfer_fixlen_endianness, length_d = 4,
                      destination_size_d = 4, p_d = 100,
                      wire_ie_d = Some (example_ie 8 kIpv4Address 4)\<rparr>]"
    by (simp add: example_long_def add_def IETemplate_new_def DecodePlan_def
        make_decision_def example_ie_def example_placement_def decision_def kVarlen_def
        transfer_decision_def exact_size_decision_def Let_def)
  have sum: "sum_list (map (unat \<circ> len_ie) (take 2 (ies_tmpl example_long))) = 80000"
    by (simp add: example_long_def add_def IETemplate_new_def example_ie_def)
  have minlen: "minlen example_long = 80004"
    by (simp add: minlen_def example_long_def add_def IETemplate_new_def example_ie_def
        kIpfixVarlen_def)
  have min: "wire_template_min_length example_long = 14468"
    by (simp add: wire_template_min_length_def example_long_def add_def IETemplate_new_def
        example_ie_def kIpfixVarlen_def)
  have "map_option (\<lambda>(r, s). (r, cur_r s, length_r s, collector_r s, calls_r s))
     (start_data_set_records (Suc (Suc 0)) False (\<lambda>n. decision skip_varlen 0 0 0)
        (Some example_collector) 5 example_placement example_long 14468
        (replicate 14464 0 @ [0xC0, 0x00, 0x02, 0x01])
        example_store [])
     = Some (Done, 14468, 0, [0xC0000201], [StartPlacement, EndPlacement])"
    unfolding start_data_set_records_def plan min
    by (simp add: example_collector_def execute_def exec_decision_def USHRT_MAX_def
        decision_def read_mem_4 reverse_copy_apply memset_def)
  with plan sum minlen min show ?thesis by simp
qed

section \<open>Properties of the template registry\<close>

lemma ies_equal_iff: "ies_equal ls rs = (ls = rs)"
  by (induction ls rs rule: ies_equal.induct) auto

lemma IETemplate_ne_iff: "IETemplate_ne t rhs = (ies_tmpl t \<noteq> ies_tmpl rhs)"
  by (simp add: IETemplate_ne_def IETemplate_eq_def ies_equal_iff)

text \<open>
  C9: at the end of a template record whose template has no fields, the registry is
  unchanged, so whatever was stored under the record's key is still stored there; the
  matched-template cache and the incomplete marks are unchanged too. This holds for the
  placement handler and for the older IPFIX handler.
\<close>

theorem empty_template_not_installed:
  "(current_wire_template h = Some cw \<and> size_tmpl (snd cw) = 0 \<longrightarrow>
      wire_templates (snd (end_template_record h)) = wire_templates h \<and>
      matched_templates (snd (end_template_record h)) = matched_templates h \<and>
      incomplete_template_ids (snd (end_template_record h)) = incomplete_template_ids h) \<and>
   (current_wire_template_i g = Some cw \<and> size_tmpl (snd cw) = 0 \<longrightarrow>
      wire_templates_i (snd (end_template_record_i g)) = wire_templates_i g)"
  by (simp add: end_template_record_def end_template_record_i_def Let_def)

theorem empty_template_not_installed_witness:
  "wire_templates (snd (end_template_record (snd (start_template_record example_handler 11 256 0))))
     0x10100 = Some (10, example_template) \<and>
   fst (end_template_record (snd (start_template_record example_handler 11 256 0))) = Inr None \<and>
   wire_templates_i (snd (end_template_record_i example_handler_i)) 0x10100
     = Some (10, example_template)"
  using empty_template_not_installed
          [of "snd (start_template_record example_handler 11 256 0)" "(11, IETemplate_new)"
              example_handler_i]
  by (simp add: start_template_record_def example_handler_def example_handler_i_def
      IETemplate_new_def size_tmpl_def end_template_record_def Let_def)

text \<open>
  The registry at the end of a template record with at least one field, by what is
  stored under the record's key: nothing (the new template is installed), a template
  with the same elements (the new one is dropped; registry, and so the stored pointer,
  and cache stay as they are), or a different template (the new one is installed, the
  cache entry of the old one is erased, and the bare template id is erased from the
  incomplete marks).
\<close>

theorem end_template_record_registry:
  "current_wire_template h = Some cw \<and> size_tmpl (snd cw) > 0 \<longrightarrow>
     (wire_templates h (make_template_key h (current_template_id h)) = None \<longrightarrow>
        wire_templates (snd (end_template_record h))
          = (wire_templates h)(make_template_key h (current_template_id h) \<mapsto> cw) \<and>
        matched_templates (snd (end_template_record h)) = matched_templates h \<and>
        incomplete_template_ids (snd (end_template_record h)) = incomplete_template_ids h) \<and>
     (wire_templates h (make_template_key h (current_template_id h)) = Some my \<and>
      ies_tmpl (snd my) = ies_tmpl (snd cw) \<longrightarrow>
        wire_templates (snd (end_template_record h)) = wire_templates h \<and>
        matched_templates (snd (end_template_record h)) = matched_templates h \<and>
        incomplete_template_ids (snd (end_template_record h)) = incomplete_template_ids h) \<and>
     (wire_templates h (make_template_key h (current_template_id h)) = Some my \<and>
      ies_tmpl (snd my) \<noteq> ies_tmpl (snd cw) \<longrightarrow>
        wire_templates (snd (end_template_record h))
          = (wire_templates h)(make_template_key h (current_template_id h) \<mapsto> cw) \<and>
        matched_templates (snd (end_template_record h))
          = (matched_templates h)(fst my := None) \<and>
        incomplete_template_ids (snd (end_template_record h))
          = incomplete_template_ids h - {ucast (current_template_id h)})"
  by (auto simp: end_template_record_def find_wire_template_def IETemplate_ne_iff Let_def)

theorem end_template_record_registry_witness:
  "wire_templates
     (snd (end_template_record
             (example_handler\<lparr>current_template_id := 300, current_field_count := 1,
                current_field_no := 1, current_wire_template := Some (11, example_template')\<rparr>)))
     0x1012C = Some (11, example_template') \<and>
   wire_templates
     (snd (end_template_record
             (example_marked\<lparr>current_template_id := 256, current_field_count := 2,
                current_field_no := 2, current_wire_template := Some (11, example_template)\<rparr>)))
     0x10100 = Some (10, example_template) \<and>
   matched_templates
     (snd (end_template_record
             (example_marked\<lparr>current_template_id := 256, current_field_count := 2,
                current_field_no := 2, current_wire_template := Some (11, example_template)\<rparr>)))
     10 = Some 5 \<and>
   wire_templates (snd (end_template_record example_redeclared)) 0x10100
     = Some (11, example_template') \<and>
   matched_templates (snd (end_template_record example_redeclared)) 10 = None"
  using end_template_record_registry
          [of "example_handler\<lparr>current_template_id := 300, current_field_count := 1,
                 current_field_no := 1, current_wire_template := Some (11, example_template')\<rparr>"
              "(11, example_template')" "(10, example_template)"]
        end_template_record_registry
          [of "example_marked\<lparr>current_template_id := 256, current_field_count := 2,
                 current_field_no := 2, current_wire_template := Some (11, example_template)\<rparr>"
              "(11, example_template)" "(10, example_template)"]
        end_template_record_registry
          [of example_redeclared "(11, example_template')" "(10, example_template)"]
  by (simp add: example_redeclared_def example_marked_def example_handler_def
      match_placement_template_def make_template_key_def example_template_def
      example_template'_def add_def IETemplate_new_def size_tmpl_def example_ie_def Let_def)

text \<open>
  C3: the three cases of the registry update hold (theorem
  \<open>end_template_record_registry\<close>), but the incomplete mark of the replaced template
  is not cleared outside observation domain 0: the mark is
  \<open>make_template_key(id)\<close>, and what is erased is the bare template id. Here the
  stored template of key 0x10100 is replaced and its cache entry evicted, and the mark
  0x10100 is still set afterwards.
\<close>

theorem incomplete_mark_not_cleared:
  "0x10100 \<in> incomplete_template_ids example_marked \<and>
   matched_templates example_marked 10 = Some 5 \<and>
   make_template_key example_redeclared (current_template_id example_redeclared) = 0x10100 \<and>
   fst (end_template_record example_redeclared) = Inr None \<and>
   wire_templates (snd (end_template_record example_redeclared)) 0x10100
     = Some (11, example_template') \<and>
   matched_templates (snd (end_template_record example_redeclared)) 10 = None \<and>
   0x10100 \<in> incomplete_template_ids (snd (end_template_record example_redeclared))"
  by (simp add: example_redeclared_def example_marked_def example_handler_def
      match_placement_template_def make_template_key_def find_wire_template_def
      end_template_record_def example_template_def example_template'_def add_def
      IETemplate_new_def size_tmpl_def IETemplate_ne_iff example_ie_def Let_def)

section \<open>Validation of the message header\<close>

text \<open>
  C7: \<open>parse\<close> validates the version of each header and nothing else. A header of
  version 10 whose length field is below 16 is not reported: \<open>parse\<close> announces the
  message to the content handler (whose \<open>start_message\<close> returns nothing to it) and
  then fails its own assertion \<open>cur <= message_end\<close>, which states the bound that no
  test enforces. First a stream of one header with length 0; then a stream whose second
  header has length 15; last, for comparison, the version test on a header of version
  9, which reports the fatal error and returns.
\<close>

theorem short_length_not_fatal:
  "parse (Suc 0)
     (BufferInputSource_new
        [0x00, 0x0A, 0x00, 0x00, 0, 0, 0, 1, 0, 0, 0, 1, 0, 0, 0, 0] 16)
     = Some (Some AssertionFailed, [ev_start_session, ev_start_message 10 0 1 1 0 0]) \<and>
   parse (Suc (Suc 0))
     (BufferInputSource_new
        [0x00, 0x0A, 0x00, 0x10, 0, 0, 0, 1, 0, 0, 0, 1, 0, 0, 0, 0,
         0x00, 0x0A, 0x00, 0x0F, 0, 0, 0, 1, 0, 0, 0, 2, 0, 0, 0, 0] 32)
     = Some (Some AssertionFailed,
             [ev_start_session, ev_start_message 10 16 1 1 0 0, ev_end_message,
              ev_start_message 10 15 1 2 0 0]) \<and>
   parse (Suc 0)
     (BufferInputSource_new
        [0x00, 0x09, 0x00, 0x00, 0, 0, 0, 1, 0, 0, 0, 1, 0, 0, 0, 0] 16)
     = Some (None, [ev_start_session, ev_fatal message_version_number])"
  by (simp add: parse_def BufferInputSource_new_def read_def kIpfixMessageHeaderLen_def
      decode_uint16_def decode_uint32_def kIpfixVersion_def kIpfixSetHeaderLen_def Let_def)

text \<open>
  What \<open>parse\<close> does with a full header at any pass of its loop, whatever was read and
  announced before: a version other than 10 is reported as the fatal error
  \<open>message_version_number\<close> and ends the run with nothing more announced; version 10
  with a length below 16 is announced and ends the run in the failed assertion.
\<close>

theorem parse_messages_header:
  "(nbytes = 16 \<and> decode_uint16 message 0 \<noteq> kIpfixVersion \<longrightarrow>
      parse_messages (Suc fuel) s nbytes message evs
        = Some (None, evs @ [ev_fatal message_version_number])) \<and>
   (nbytes = 16 \<and> decode_uint16 message 0 = kIpfixVersion \<and> decode_uint16 message 2 < 16 \<longrightarrow>
      parse_messages (Suc fuel) s nbytes message evs
        = Some (Some AssertionFailed,
                evs @ [ev_start_message kIpfixVersion (decode_uint16 message 2)
                         (decode_uint32 message 4) (decode_uint32 message 8)
                         (decode_uint32 message 12) 0]))"
  by (auto simp: kIpfixMessageHeaderLen_def Let_def word_less_nat_alt)

theorem parse_messages_header_witness:
  "parse_messages (Suc 0) (BufferInputSource_new [] 0) 16
     [0x00, 0x09, 0x00, 0x10, 0, 0, 0, 1, 0, 0, 0, 1, 0, 0, 0, 0] [ev_start_session]
     = Some (None, [ev_start_session, ev_fatal message_version_number]) \<and>
   parse_messages (Suc 0) (BufferInputSource_new [] 0) 16
     [0x00, 0x0A, 0x00, 0x0F, 0, 0, 0, 1, 0, 0, 0, 1, 0, 0, 0, 7] [ev_start_session]
     = Some (Some AssertionFailed, [ev_start_session, ev_start_message 10 15 1 1 7 0])"
  using parse_messages_header
          [of 16 "[0x00, 0x09, 0x00, 0x10, 0, 0, 0, 1, 0, 0, 0, 1, 0, 0, 0, 0]" 0
              "BufferInputSource_new [] 0" "[ev_start_session]"]
        parse_messages_header
          [of 16 "[0x00, 0x0A, 0x00, 0x0F, 0, 0, 0, 1, 0, 0, 0, 1, 0, 0, 0, 7]" 0
              "BufferInputSource_new [] 0" "[ev_start_session]"]
  by (simp add: decode_uint16_def decode_uint32_def kIpfixVersion_def)

text \<open>
  The placement handler's \<open>start_message\<close> does compare the length with 16: for an
  IPFIX message with a smaller length and base time 0 it returns a recoverable
  \<open>short_message\<close> error, clears \<open>parse_is_good\<close> and leaves the observation domain as
  it was.
\<close>

theorem start_message_short:
  "current_wire_template h = None \<and> len < kIpfixMinMessageLen \<longrightarrow>
     start_message h kIpfixVersion len export_time sequence_number domain 0 =
       (Inr (Some (ErrorContext recoverable short_message ''must be at least 16 bytes long'')),
        h\<lparr>parse_is_good := False\<rparr>)"
  by (simp add: start_message_def)

theorem start_message_short_witness:
  "start_message example_handler 10 15 1 1 7 0 =
     (Inr (Some (ErrorContext recoverable short_message ''must be at least 16 bytes long'')),
      example_handler\<lparr>parse_is_good := False\<rparr>)"
  using start_message_short [of example_handler 15 1 1 7]
  by (simp add: kIpfixVersion_def kIpfixMinMessageLen_def example_handler_def)

section \<open>The loop over the records of a data set\<close>

text \<open>
  C4: the loop does not run while the remaining length is at least the template's
  minimum length as \<open>IETemplate::add\<close> keeps it, with 1 for a varlen field; it runs
  while the remaining length is at least \<open>wire_template_min_length\<close>, which leaves
  varlen fields out. For the template of a varlen string and an IPv4 address the two
  are 5 and 4. A data set with one record of 8 octets and 4 octets of padding (fewer
  than any record has) is decoded as two records: the loop makes a second pass on the
  padding, calls \<open>start_placement\<close>, and \<open>execute\<close> throws.
\<close>

theorem padding_decoded_as_record:
  "minlen example_wire = 5 \<and>
   wire_template_min_length example_wire = 4 \<and>
   map_option (\<lambda>(r, s). (r, cur_r s, length_r s, collector_r s, calls_r s))
     (start_data_set_records (Suc (Suc (Suc 0))) False (\<lambda>n. decision skip_varlen 0 0 0)
        (Some example_collector) 5 example_placement example_wire 12
        [0x03, 0x41, 0x42, 0x43, 0xC0, 0x00, 0x02, 0x01, 0x00, 0x00, 0x00, 0x00]
        example_store [])
     = Some (Thrown (FormatError ''IE length beyond buffer''), 8, 4, [0xC0000201],
             [StartPlacement, EndPlacement, StartPlacement])"
proof -
  have plan: "DecodePlan False (\<lambda>n. decision skip_varlen 0 0 0) example_placement
                (ies_tmpl example_wire)
              = Inr [decision skip_varlen 0 0 0,
                     \<lparr>type_d = transfer_fixlen_endianness, length_d = 4,
                      destination_size_d = 4, p_d = 100,
                      wire_ie_d = Some (example_ie 8 kIpv4Address 4)\<rparr>]"
    by (simp add: example_wire_def add_def IETemplate_new_def example_ie_def DecodePlan_def
        make_decision_def example_placement_def kVarlen_def decision_def
        transfer_decision_def exact_size_decision_def Let_def)
  have min: "wire_template_min_length example_wire = 4"
    by (simp add: wire_template_min_length_def example_wire_def add_def IETemplate_new_def
        example_ie_def kIpfixVarlen_def)
  have "minlen example_wire = 5"
    by (simp add: minlen_def example_wire_def add_def IETemplate_new_def example_ie_def
        kIpfixVarlen_def)
  moreover note min
  moreover have "map_option (\<lambda>(r, s). (r, cur_r s, length_r s, collector_r s, calls_r s))
     (start_data_set_records (Suc (Suc (Suc 0))) False (\<lambda>n. decision skip_varlen 0 0 0)
        (Some example_collector) 5 example_placement example_wire 12
        [0x03, 0x41, 0x42, 0x43, 0xC0, 0x00, 0x02, 0x01, 0x00, 0x00, 0x00, 0x00]
        example_store [])
     = Some (Thrown (FormatError ''IE length beyond buffer''), 8, 4, [0xC0000201],
             [StartPlacement, EndPlacement, StartPlacement])"
    unfolding start_data_set_records_def plan min
    by (simp add: example_collector_def execute_def exec_decision_def
        decode_varlen_length_def UCHAR_MAX_def USHRT_MAX_def decision_def
        read_mem_4 reverse_copy_apply memset_def)
  ultimately show ?thesis by blast
qed

lemma fold_min_length:
  "unat (fold (\<lambda>i m. if len_ie i \<noteq> kIpfixVarlen then m + len_ie i else m) ies m0)
     = (unat m0 + sum_list (map (\<lambda>i. if len_ie i = kIpfixVarlen then 0 else unat (len_ie i)) ies))
         mod 65536"
proof (induction ies arbitrary: m0)
  case Nil
  have "unat m0 < 65536" using unsigned_less [of m0, where ?'a = nat] by simp
  then show ?case by simp
next
  case (Cons i ies)
  show ?case
  proof (cases "len_ie i = kIpfixVarlen")
    case True
    then show ?thesis by (simp add: Cons)
  next
    case False
    have "unat (m0 + len_ie i) = (unat m0 + unat (len_ie i)) mod 65536"
      by (simp add: unat_word_ariths)
    with False show ?thesis
      by (simp add: Cons mod_add_left_eq add.assoc)
  qed
qed

lemma records_loop_calls:
  "records_loop fuel cb pt plan m buf e s = Some (r, s') \<Longrightarrow>
     \<exists>k tl. calls_r s' = calls_r s @ concat (replicate k [StartPlacement, EndPlacement]) @ tl \<and>
            (tl = [] \<or> tl = [StartPlacement]) \<and>
            (r = Done \<longrightarrow> tl = [] \<and> \<not> (cur_r s' < e \<and> m \<le> length_r s'))"
proof (induction fuel arbitrary: s)
  case 0
  then show ?case by simp
next
  case (Suc fuel)
  show ?case
  proof (cases "cur_r s < e \<and> m \<le> length_r s")
    case False
    with Suc.prems have "r = Done" "s' = s" by auto
    with False show ?thesis
      by (intro exI [of _ 0] exI [of _ "[]"]) simp
  next
    case True
    obtain e1 c1 where sp: "start_placement cb pt (collector_r s) (store_r s) = (e1, c1)"
      by (cases "start_placement cb pt (collector_r s) (store_r s)")
    show ?thesis
    proof (cases e1)
      case (Some err)
      with True sp Suc.prems show ?thesis
        by (intro exI [of _ 0] exI [of _ "[StartPlacement]"]) auto
    next
      case None
      obtain x st1 where ex: "execute plan (take (unat (length_r s)) (drop (cur_r s) buf)) (store_r s) = (x, st1)"
        by (cases "execute plan (take (unat (length_r s)) (drop (cur_r s) buf)) (store_r s)")
      show ?thesis
      proof (cases x)
        case (Inl ee)
        with True sp None ex Suc.prems show ?thesis
          by (intro exI [of _ 0] exI [of _ "[StartPlacement]"]) auto
      next
        case (Inr consumed)
        obtain e2 c2 where ep: "end_placement cb pt c1 st1 = (e2, c2)"
          by (cases "end_placement cb pt c1 st1")
        show ?thesis
        proof (cases e2)
          case (Some err)
          with True sp None ex Inr ep Suc.prems show ?thesis
            by (intro exI [of _ 1] exI [of _ "[]"]) auto
        next
          case n2: None
          let ?s2 = "s\<lparr>cur_r := cur_r s + unat consumed, length_r := length_r s - consumed,
                       store_r := st1, collector_r := c2,
                       calls_r := calls_r s @ [StartPlacement, EndPlacement]\<rparr>"
          from True sp None ex Inr ep n2 Suc.prems
          have "records_loop fuel cb pt plan m buf e ?s2 = Some (r, s')" by simp
          from Suc.IH [OF this] obtain k tl where
            k: "calls_r s' = calls_r ?s2 @ concat (replicate k [StartPlacement, EndPlacement]) @ tl"
               "tl = [] \<or> tl = [StartPlacement]"
               "r = Done \<longrightarrow> tl = [] \<and> \<not> (cur_r s' < e \<and> m \<le> length_r s')"
            by blast
          show ?thesis
            using k by (intro exI [of _ "Suc k"] exI [of _ tl]) simp
        qed
      qed
    qed
  qed
qed

text \<open>
  What the loop does do: \<open>wire_template_min_length\<close> is the sum, modulo 65536, of the
  lengths of the fixed-length fields; the loop ends at once when the cursor has reached
  \<open>buf_end\<close> or the remaining length is below that minimum; otherwise a pass calls
  \<open>start_placement\<close>, executes the plan once on the remaining octets, calls
  \<open>end_placement\<close>, and goes on with the cursor advanced and the remaining length
  reduced by the count consumed. The calls of any run that ends are pairs of
  \<open>start_placement\<close> and \<open>end_placement\<close>, followed by one more \<open>start_placement\<close>
  only if the run ended in an error.
\<close>

theorem records_loop_structure:
  "unat (wire_template_min_length t)
     = sum_list (map (\<lambda>i. if len_ie i = kIpfixVarlen then 0 else unat (len_ie i)) (ies_tmpl t))
         mod 65536 \<and>
   (\<not> (cur_r s < e \<and> m \<le> length_r s) \<longrightarrow>
      records_loop (Suc fuel) cb pt plan m buf e s = Some (Done, s)) \<and>
   (cur_r s < e \<and> m \<le> length_r s \<and>
    start_placement cb pt (collector_r s) (store_r s) = (None, c1) \<and>
    execute plan (take (unat (length_r s)) (drop (cur_r s) buf)) (store_r s) = (Inr consumed, st1) \<and>
    end_placement cb pt c1 st1 = (None, c2) \<longrightarrow>
      records_loop (Suc fuel) cb pt plan m buf e s =
        records_loop fuel cb pt plan m buf e
          (s\<lparr>cur_r := cur_r s + unat consumed, length_r := length_r s - consumed,
             store_r := st1, collector_r := c2,
             calls_r := calls_r s @ [StartPlacement, EndPlacement]\<rparr>)) \<and>
   (records_loop fuel cb pt plan m buf e s = Some (r, s') \<longrightarrow>
      (\<exists>k tl. calls_r s' = calls_r s @ concat (replicate k [StartPlacement, EndPlacement]) @ tl \<and>
              (tl = [] \<or> tl = [StartPlacement]) \<and>
              (r = Done \<longrightarrow> tl = [] \<and> \<not> (cur_r s' < e \<and> m \<le> length_r s'))))"
proof (intro conjI impI)
  show "unat (wire_template_min_length t)
     = sum_list (map (\<lambda>i. if len_ie i = kIpfixVarlen then 0 else unat (len_ie i)) (ies_tmpl t))
         mod 65536"
    by (simp add: wire_template_min_length_def fold_min_length)
next
  assume "\<not> (cur_r s < e \<and> m \<le> length_r s)"
  then show "records_loop (Suc fuel) cb pt plan m buf e s = Some (Done, s)" by auto
next
  assume "cur_r s < e \<and> m \<le> length_r s \<and>
    start_placement cb pt (collector_r s) (store_r s) = (None, c1) \<and>
    execute plan (take (unat (length_r s)) (drop (cur_r s) buf)) (store_r s) = (Inr consumed, st1) \<and>
    end_placement cb pt c1 st1 = (None, c2)"
  then show "records_loop (Suc fuel) cb pt plan m buf e s =
        records_loop fuel cb pt plan m buf e
          (s\<lparr>cur_r := cur_r s + unat consumed, length_r := length_r s - consumed,
             store_r := st1, collector_r := c2,
             calls_r := calls_r s @ [StartPlacement, EndPlacement]\<rparr>)"
    by simp
next
  assume "records_loop fuel cb pt plan m buf e s = Some (r, s')"
  then show "\<exists>k tl. calls_r s' = calls_r s @ concat (replicate k [StartPlacement, EndPlacement]) @ tl \<and>
              (tl = [] \<or> tl = [StartPlacement]) \<and>
              (r = Done \<longrightarrow> tl = [] \<and> \<not> (cur_r s' < e \<and> m \<le> length_r s'))"
    by (rule records_loop_calls)
qed

theorem records_loop_structure_witness:
  "unat (wire_template_min_length example_wire) = 4 \<and>
   map_option (\<lambda>(r, s). (r, cur_r s, length_r s, collector_r s, calls_r s)) example_records
     = Some (Done, 12, 0, [0xC0000201, 0x0A000001],
             [StartPlacement, EndPlacement, StartPlacement, EndPlacement])"
proof -
  have plan: "DecodePlan False (\<lambda>n. decision skip_varlen 0 0 0) example_placement
                (ies_tmpl example_wire)
              = Inr [decision skip_varlen 0 0 0,
                     \<lparr>type_d = transfer_fixlen_endianness, length_d = 4,
                      destination_size_d = 4, p_d = 100,
                      wire_ie_d = Some (example_ie 8 kIpv4Address 4)\<rparr>]"
    by (simp add: example_wire_def add_def IETemplate_new_def example_ie_def DecodePlan_def
        make_decision_def example_placement_def kVarlen_def decision_def
        transfer_decision_def exact_size_decision_def Let_def)
  have min: "wire_template_min_length example_wire = 4"
    by (simp add: wire_template_min_length_def example_wire_def add_def IETemplate_new_def
        example_ie_def kIpfixVarlen_def)
  have run: "map_option (\<lambda>(r, s). (r, cur_r s, length_r s, collector_r s, calls_r s))
               example_records
     = Some (Done, 12, 0, [0xC0000201, 0x0A000001],
             [StartPlacement, EndPlacement, StartPlacement, EndPlacement])"
    unfolding example_records_def start_data_set_records_def plan min
    by (simp add: example_collector_def execute_def exec_decision_def
        decode_varlen_length_def UCHAR_MAX_def USHRT_MAX_def decision_def
        read_mem_4 reverse_copy_apply memset_def)
  then obtain r s' where rs: "example_records = Some (r, s')" by auto
  from run have d: "r = Done" "cur_r s' = 12" "length_r s' = 0"
    unfolding rs by simp_all
  have "records_loop (Suc 0) example_collector 5 [] 4 [] 12 s' = Some (Done, s')"
    using records_loop_structure [of example_wire s' 12 4 0 example_collector 5 "[]" "[]"] d
    by simp
  with min run show ?thesis by simp
qed

end
